theory Spec2Isabelle
  imports Complex_Main "HOL-Library.List_Lexorder" "HOL-Library.Char_ord"
begin

chapter \<open>The data-source client layer\<close>

section \<open>Error taxonomy (utils/exceptions.py)\<close>

text \<open>
  The exception classes of the package.  \<open>Builtin n\<close> stands for any Python exception
  class outside the package hierarchy (\<open>ValueError\<close>, \<open>TypeError\<close>, the transport
  library's errors), \<open>n\<close> being its class name.
\<close>

datatype exc_class =
    FederalReserveETLError
  | ConnectionError
  | AuthenticationError
  | DataRetrievalError
  | ValidationError
  | ConfigurationError
  | RateLimitError
  | Builtin string

text \<open>Values stored in the open context mapping of an exception.\<close>

datatype ctx_val = CStr string | CNum rat | CList "string list" | CPair string string

text \<open>
  An exception object: its class, the three attributes set by
  \<open>FederalReserveETLError.__init__\<close>, and the names of its instance attributes
  (what \<open>hasattr\<close> consults).
\<close>

record exn =
  cls :: exc_class
  message :: string
  error_code :: "string option"
  "context" :: "string \<rightharpoonup> ctx_val"
  attrs :: "string list"

text \<open>\<open>issubclass\<close>: \<open>RateLimitError\<close> derives from \<open>DataRetrievalError\<close>, every package
  class derives from \<open>FederalReserveETLError\<close>.\<close>

fun is_etl_class :: "exc_class \<Rightarrow> bool" where
  "is_etl_class (Builtin n) = False"
| "is_etl_class c = True"

definition issubclass :: "exc_class \<Rightarrow> exc_class \<Rightarrow> bool" where
  "issubclass c d \<longleftrightarrow>
     c = d \<or> (c = RateLimitError \<and> d = DataRetrievalError)
           \<or> (is_etl_class c \<and> d = FederalReserveETLError)"

definition isinstance :: "exn \<Rightarrow> exc_class list \<Rightarrow> bool" where
  "isinstance e ds \<longleftrightarrow> (\<exists>d \<in> set ds. issubclass (cls e) d)"

definition hasattr :: "exn \<Rightarrow> string \<Rightarrow> bool" where
  "hasattr e n \<longleftrightarrow> n \<in> set (attrs e)"

text \<open>\<open>FederalReserveETLError.__init__\<close> and \<open>__str__\<close>.\<close>

definition base_init :: "exc_class \<Rightarrow> string \<Rightarrow> string option \<Rightarrow> (string \<rightharpoonup> ctx_val) \<Rightarrow> exn" where
  "base_init c msg code ctx =
     \<lparr>cls = c, message = msg, error_code = code, context = ctx,
      attrs = [''message'', ''error_code'', ''context'']\<rparr>"

definition exn_str :: "exn \<Rightarrow> string" where
  "exn_str e = (case error_code e of
                  Some c \<Rightarrow> (if c \<noteq> [] then ''['' @ c @ ''] '' @ message e else message e)
                | None \<Rightarrow> message e)"

text \<open>An exception raised by code outside the package: only a class name and a text.\<close>

definition builtin_exn :: "string \<Rightarrow> string \<Rightarrow> exn" where
  "builtin_exn n msg = \<lparr>cls = Builtin n, message = msg, error_code = None,
                        context = Map.empty, attrs = [''args'']\<rparr>"

text \<open>Python truthiness of an optional integer argument (\<open>if limit:\<close>).\<close>

definition truthy_int :: "int option \<Rightarrow> bool" where
  "truthy_int x = (case x of None \<Rightarrow> False | Some n \<Rightarrow> n \<noteq> 0)"

definition ctx_put_int :: "string \<Rightarrow> int option \<Rightarrow> (string \<rightharpoonup> ctx_val) \<Rightarrow> (string \<rightharpoonup> ctx_val)" where
  "ctx_put_int k x ctx = (if truthy_int x then ctx(k \<mapsto> CNum (of_int (the x))) else ctx)"

text \<open>\<open>ConnectionError.__init__(message, endpoint, status_code)\<close>.\<close>

definition connection_error :: "string \<Rightarrow> string option \<Rightarrow> int option \<Rightarrow> exn" where
  "connection_error msg endpoint status_code =
     base_init ConnectionError msg None
       (ctx_put_int ''status_code'' status_code
          (case endpoint of
             None \<Rightarrow> Map.empty
           | Some ep \<Rightarrow> (if ep \<noteq> [] then [''endpoint'' \<mapsto> CStr ep] else Map.empty)))"

text \<open>\<open>DataRetrievalError.__init__(message, variables, date_range)\<close>
  (no call in the clients below passes a truthy \<open>response_status\<close> together with these).\<close>

definition data_retrieval_error :: "string \<Rightarrow> string list \<Rightarrow> (string \<times> string) option \<Rightarrow> exn" where
  "data_retrieval_error msg variables date_range =
     base_init DataRetrievalError msg None
       ((if variables \<noteq> [] then [''variables'' \<mapsto> CList variables] else Map.empty)
          ++ (case date_range of None \<Rightarrow> Map.empty
              | Some (a, b) \<Rightarrow> [''date_range'' \<mapsto> CPair a b]))"

text \<open>\<open>ValidationError.__init__(message, field, expected, actual, error_code, context)\<close>.\<close>

definition validation_error ::
  "string \<Rightarrow> string option \<Rightarrow> string option \<Rightarrow> string option \<Rightarrow> string option
     \<Rightarrow> (string \<rightharpoonup> ctx_val) \<Rightarrow> exn" where
  "validation_error msg code field expected actual ctx =
     base_init ValidationError msg code
       (ctx ++ (case field of Some f \<Rightarrow> (if f \<noteq> [] then [''field'' \<mapsto> CStr f] else Map.empty)
                | None \<Rightarrow> Map.empty)
            ++ (case expected of Some x \<Rightarrow> [''expected'' \<mapsto> CStr x] | None \<Rightarrow> Map.empty)
            ++ (case actual of Some x \<Rightarrow> [''actual'' \<mapsto> CStr x] | None \<Rightarrow> Map.empty))"


text \<open>
  \<open>RateLimitError.__init__(message, limit, reset_time, retry_after)\<close>: the three
  numbers go into the context mapping when truthy; no attribute of their name is set.
\<close>

definition rate_limit_error :: "string \<Rightarrow> int option \<Rightarrow> int option \<Rightarrow> int option \<Rightarrow> exn" where
  "rate_limit_error msg limit reset_time retry_after =
     base_init RateLimitError msg None
       (ctx_put_int ''retry_after'' retry_after
          (ctx_put_int ''reset_time'' reset_time
             (ctx_put_int ''limit'' limit Map.empty)))"


section \<open>Strings\<close>

text \<open>
  Strings are byte strings here, so \<open>str.strip\<close>, \<open>str.upper\<close> and \<open>str.lower\<close> are
  modelled on ASCII: the whitespace characters are 0x09-0x0D, 0x1C-0x20, and case
  conversion maps the 26 letters.  On ASCII input they agree with Python.  Beyond
  ASCII Python does more, which a byte model cannot follow: U+0085 and U+00A0 are
  whitespace too, and non-ASCII letters change case, some changing the length of the
  string.  The general properties below that speak of \<open>normalize\<close> use no fact
  about what trimming and case conversion do to a character; the examples are ASCII.
\<close>

definition isspace :: "char \<Rightarrow> bool" where
  "isspace c \<longleftrightarrow> (let n = (of_char c :: nat) in (9 \<le> n \<and> n \<le> 13) \<or> (28 \<le> n \<and> n \<le> 32))"

definition strip :: "string \<Rightarrow> string" where
  "strip s = rev (dropWhile isspace (rev (dropWhile isspace s)))"

definition lowercase_letters :: string where
  "lowercase_letters = ''abcdefghijklmnopqrstuvwxyz''"

definition uppercase_letters :: string where
  "uppercase_letters = ''ABCDEFGHIJKLMNOPQRSTUVWXYZ''"

definition upper_char :: "char \<Rightarrow> char" where
  "upper_char c = (case map_of (zip lowercase_letters uppercase_letters) c of
                     Some u \<Rightarrow> u | None \<Rightarrow> c)"


definition upper :: "string \<Rightarrow> string" where
  "upper s = map upper_char s"


text \<open>\<open>sep.join(xs)\<close> and the quoting of an f-string field \<open>'{var}'\<close>.\<close>

fun join :: "string \<Rightarrow> string list \<Rightarrow> string" where
  "join sep [] = []"
| "join sep [x] = x"
| "join sep (x # y # ys) = x @ sep @ join sep (y # ys)"

definition quoted :: "string \<Rightarrow> string" where
  "quoted s = [CHR 0x27] @ s @ [CHR 0x27]"


section \<open>Variable-code validation (utils/error\_handling.py)\<close>

text \<open>The argument of \<open>validate_variable_codes\<close>: one code or a list of codes.\<close>

datatype variables_arg = VStr string | VList "string list"

text \<open>
  The loop over \<open>var_list\<close>, with its two accumulators.  Each entry is cleaned with
  \<open>strip().upper()\<close>; an entry that is empty after cleaning, or longer than 50, is
  reported in \<open>invalid\<close> with the original text; no other test is made.
\<close>

fun validate_loop :: "string list \<Rightarrow> string list \<Rightarrow> string list \<Rightarrow> string list \<times> string list" where
  "validate_loop [] validated_vars invalid_vars = (validated_vars, invalid_vars)"
| "validate_loop (var # rest) validated_vars invalid_vars =
     (let var_clean = upper (strip var) in
      if var_clean = [] then
        validate_loop rest validated_vars (invalid_vars @ [quoted var @ '' (empty)''])
      else if length var_clean > 50 then
        validate_loop rest validated_vars (invalid_vars @ [quoted var @ '' (too long)''])
      else
        validate_loop rest (validated_vars @ [var_clean]) invalid_vars)"

definition validate_variable_codes :: "variables_arg \<Rightarrow> exn + string list" where
  "validate_variable_codes variables =
     (let var_list = (case variables of VStr s \<Rightarrow> [s] | VList xs \<Rightarrow> xs);
          (validated_vars, invalid_vars) = validate_loop var_list [] []
      in if invalid_vars \<noteq> [] then
           Inl (validation_error (''Invalid variable codes: '' @ join '', '' invalid_vars)
                  (Some ''INVALID_VARIABLES'') (Some ''variables'') None None
                  [''valid_variables'' \<mapsto> CList validated_vars,
                   ''invalid_variables'' \<mapsto> CList invalid_vars])
         else Inr validated_vars)"

text \<open>The normal form of a code, the test the loop applies to it, and the text with
  which a rejected entry is reported.\<close>

definition normalize :: "string \<Rightarrow> string" where
  "normalize var = upper (strip var)"

definition code_ok :: "string \<Rightarrow> bool" where
  "code_ok var \<longleftrightarrow> normalize var \<noteq> [] \<and> length (normalize var) \<le> 50"

definition describe_invalid :: "string \<Rightarrow> string" where
  "describe_invalid var =
     (if normalize var = [] then quoted var @ '' (empty)'' else quoted var @ '' (too long)'')"

text \<open>The character set the data model of the specification names for a code:
  letters, digits, underscore and hyphen.\<close>

definition spec_code_char :: "char \<Rightarrow> bool" where
  "spec_code_char c \<longleftrightarrow> c \<in> set lowercase_letters \<or> c \<in> set uppercase_letters
                        \<or> c \<in> set ''0123456789'' \<or> c = CHR ''_'' \<or> c = CHR ''-''"


section \<open>Clients (data\_sources/base.py, fred\_client.py, haver\_client.py)\<close>

text \<open>
  Points in time (\<open>datetime\<close>) are seconds since \<open>datetime.min\<close>, durations are seconds;
  both are rationals, so that the half-second spacing and the truncation of a remaining
  wait to whole seconds are exact.

  \<open>data_source\<close> holds the attributes set by \<open>DataSource.__init__\<close> together with the
  three that both concrete constructors add under the same name (\<open>session\<close>,
  \<open>timeout\<close>, \<open>last_request_time\<close>); a session is modelled by whether one is open.
\<close>

record data_source =
  api_key :: "string option"
  source_name :: string
  base_url :: string
  rate_limit :: int
  is_connected :: bool
  session :: bool
  timeout :: int
  last_request_time :: rat

record fred_client = data_source +
  requests_this_minute :: int
  minute_window_start :: rat

record haver_client = data_source +
  username :: string
  password :: string
  min_request_interval :: rat

text \<open>\<open>disconnect\<close> is the same in both clients: close the session if there is one,
  clear the flag.  It raises nothing.\<close>

definition disconnect :: "'a data_source_scheme \<Rightarrow> 'a data_source_scheme" where
  "disconnect c = c\<lparr>session := False, is_connected := False\<rparr>"


section \<open>FRED rate limiter (\<open>FREDDataSource._enforce_rate_limit\<close>)\<close>

text \<open>
  One call of \<open>_enforce_rate_limit\<close>.  \<open>now\<close> is the clock reading at entry and
  \<open>now_after\<close> the reading taken after the optional sleep; \<open>fmt\<close> renders the
  remaining wait for the message (\<open>{:.1f}\<close>).  The client is returned in both
  outcomes, since the window reset is an assignment made before the raise.  A normal
  return carries the duration slept.  \<open>int(seconds_to_wait)\<close> truncates a positive
  number, hence the floor.
\<close>

definition fred_enforce_rate_limit ::
  "(rat \<Rightarrow> string) \<Rightarrow> rat \<Rightarrow> rat \<Rightarrow> fred_client \<Rightarrow> (exn + rat) \<times> fred_client" where
  "fred_enforce_rate_limit fmt now now_after c =
     (let c1 = (if now - minute_window_start c \<ge> 60
                then c\<lparr>minute_window_start := now, requests_this_minute := 0\<rparr>
                else c);
          seconds_to_wait = 60 - (now - minute_window_start c1)
      in if requests_this_minute c1 \<ge> rate_limit c1 \<and> seconds_to_wait > 0 then
           (Inl (rate_limit_error
                   (''FRED API rate limit exceeded. Wait '' @ fmt seconds_to_wait @ '' seconds'')
                   (Some (rate_limit c1)) None (Some (\<lfloor>seconds_to_wait\<rfloor> + 1))),
            c1)
         else
           (let time_since_last = now - last_request_time c1;
                slept = (if time_since_last < 1 / 2 then 1 / 2 - time_since_last else 0)
            in (Inr slept,
                c1\<lparr>requests_this_minute := requests_this_minute c1 + 1,
                   last_request_time := now_after\<rparr>)))"

text \<open>A sequence of requests, each a pair of clock readings; \<open>None\<close> when one of them
  is refused.\<close>

fun fred_requests :: "(rat \<Rightarrow> string) \<Rightarrow> (rat \<times> rat) list \<Rightarrow> fred_client \<Rightarrow> fred_client option" where
  "fred_requests fmt [] c = Some c"
| "fred_requests fmt ((now, now_after) # ts) c =
     (case fred_enforce_rate_limit fmt now now_after c of
        (Inl e, c') \<Rightarrow> None
      | (Inr slept, c') \<Rightarrow> fred_requests fmt ts c')"

text \<open>The Haver limiter only spaces requests: it sleeps and never raises.\<close>

definition haver_enforce_rate_limit :: "rat \<Rightarrow> rat \<Rightarrow> haver_client \<Rightarrow> rat \<times> haver_client" where
  "haver_enforce_rate_limit now now_after c =
     (let time_since_last = now - last_request_time c;
          slept = (if time_since_last < min_request_interval c
                   then min_request_interval c - time_since_last else 0)
      in (slept, c\<lparr>last_request_time := now_after\<rparr>))"


section \<open>Retry wrapper (\<open>handle_api_errors\<close>, utils/error\_handling.py)\<close>

text \<open>
  The wrapped operation is a state transformer: it returns a value or raises, and
  leaves a new state.  The wrapper's result is what it returns or raises, the list of
  durations it slept (in order), and the final state.  \<open>Inr None\<close> is the implicit
  \<open>None\<close> returned when the loop body never runs and no exception was recorded.
\<close>

definition class_name :: "exc_class \<Rightarrow> string" where
  "class_name c = (case c of
       FederalReserveETLError \<Rightarrow> ''FederalReserveETLError''
     | ConnectionError \<Rightarrow> ''ConnectionError''
     | AuthenticationError \<Rightarrow> ''AuthenticationError''
     | DataRetrievalError \<Rightarrow> ''DataRetrievalError''
     | ValidationError \<Rightarrow> ''ValidationError''
     | ConfigurationError \<Rightarrow> ''ConfigurationError''
     | RateLimitError \<Rightarrow> ''RateLimitError''
     | Builtin n \<Rightarrow> n)"

record retry_policy =
  retry_count :: nat
  retry_delay :: rat
  backoff_factor :: rat
  retriable_exceptions :: "exc_class list"

text \<open>The defaults of the decorator: 3 retries, 1 second, factor 2, retrying
  \<open>ConnectionError\<close> and \<open>RateLimitError\<close>.\<close>

definition default_policy :: retry_policy where
  "default_policy = \<lparr>retry_count = 3, retry_delay = 1, backoff_factor = 2,
                      retriable_exceptions = [ConnectionError, RateLimitError]\<rparr>"

text \<open>The exception built for an unexpected (non-package) failure; \<open>fname\<close> is the
  wrapped function's name, \<open>args\<close> and \<open>kwargs\<close> the texts of its arguments.\<close>

definition wrap_unexpected :: "string \<Rightarrow> string \<Rightarrow> string \<Rightarrow> exn \<Rightarrow> exn" where
  "wrap_unexpected fname args kwargs e =
     base_init FederalReserveETLError
       (''Unexpected error in '' @ fname @ '': '' @ exn_str e)
       (Some ''UNEXPECTED_ERROR'')
       [''original_exception'' \<mapsto> CStr (class_name (cls e)),
        ''function_name'' \<mapsto> CStr fname,
        ''args'' \<mapsto> CStr (take 200 args),
        ''kwargs'' \<mapsto> CStr (take 200 kwargs)]"

text \<open>
  The delay before the next attempt: \<open>retry_delay * backoff_factor ** attempt\<close>, raised
  to the context's \<open>retry_after\<close> when the exception is a \<open>RateLimitError\<close> and
  \<open>hasattr(e, 'retry_after')\<close> holds.  \<open>max\<close> of a number and a non-number is a
  \<open>TypeError\<close>.
\<close>

definition retry_sleep :: "retry_policy \<Rightarrow> nat \<Rightarrow> exn \<Rightarrow> exn + rat" where
  "retry_sleep p attempt e =
     (let delay = retry_delay p * backoff_factor p ^ attempt in
      if isinstance e [RateLimitError] \<and> hasattr e ''retry_after'' then
        (case context e ''retry_after'' of
           None \<Rightarrow> Inr (max delay delay)
         | Some (CNum r) \<Rightarrow> Inr (max delay r)
         | Some other \<Rightarrow> Inl (builtin_exn ''TypeError'' ''unorderable types''))
      else Inr delay)"

text \<open>The \<open>for attempt in range(retry_count + 1)\<close> loop, over the attempts still to
  make; \<open>last_exception\<close> is the variable of that name.\<close>

fun wrapper_loop ::
  "retry_policy \<Rightarrow> string \<Rightarrow> string \<Rightarrow> string \<Rightarrow> ('s \<Rightarrow> (exn + 'a) \<times> 's)
     \<Rightarrow> nat list \<Rightarrow> exn option \<Rightarrow> 's \<Rightarrow> (exn + 'a option) \<times> rat list \<times> 's" where
  "wrapper_loop p fname args kwargs func [] last_exception s =
     ((case last_exception of Some e \<Rightarrow> Inl e | None \<Rightarrow> Inr None), [], s)"
| "wrapper_loop p fname args kwargs func (attempt # rest) last_exception s =
     (case func s of
        (Inr result, s') \<Rightarrow> (Inr (Some result), [], s')
      | (Inl e, s') \<Rightarrow>
          if isinstance e (retriable_exceptions p) then
            (if attempt < retry_count p then
               (case retry_sleep p attempt e of
                  Inl err \<Rightarrow> (Inl err, [], s')
                | Inr delay \<Rightarrow>
                    (case wrapper_loop p fname args kwargs func rest (Some e) s' of
                       (res, sleeps, s'') \<Rightarrow> (res, delay # sleeps, s'')))
             else (Inl e, [], s'))
          else if isinstance e [FederalReserveETLError] then (Inl e, [], s')
          else (Inl (wrap_unexpected fname args kwargs e), [], s'))"

definition handle_api_errors ::
  "retry_policy \<Rightarrow> string \<Rightarrow> string \<Rightarrow> string \<Rightarrow> ('s \<Rightarrow> (exn + 'a) \<times> 's)
     \<Rightarrow> 's \<Rightarrow> (exn + 'a option) \<times> rat list \<times> 's" where
  "handle_api_errors p fname args kwargs func s =
     wrapper_loop p fname args kwargs func [0 ..< retry_count p + 1] None s"

text \<open>An operation that plays a script: each call consumes the next outcome.  Past the
  end of the script it keeps raising a transport error.\<close>

fun scripted :: "(exn + 'a) list \<Rightarrow> (exn + 'a) \<times> (exn + 'a) list" where
  "scripted [] = (Inl (builtin_exn ''RuntimeError'' ''script exhausted''), [])"
| "scripted (x # xs) = (x, xs)"


section \<open>Date validation (\<open>validate_and_convert_dates\<close>)\<close>

text \<open>
  A \<open>datetime\<close> is (year, month, day, seconds into the day), ordered lexicographically.
  An argument is a string, a \<open>datetime\<close>, or \<open>None\<close> (the default of \<open>get_data\<close>).
  \<open>datetime.strptime\<close> with the fixed format and the rendering of a date are library
  functions and are taken as parameters: \<open>strptime\<close> returns the parsed value or the
  text of its \<open>ValueError\<close>.
\<close>

type_synonym datetime = "nat \<times> nat \<times> nat \<times> rat"

datatype date_arg = DNone | DStr string | DDateTime datetime

fun dt_less :: "datetime \<Rightarrow> datetime \<Rightarrow> bool" where
  "dt_less (y1, m1, d1, t1) (y2, m2, d2, t2) \<longleftrightarrow>
     y1 < y2 \<or> (y1 = y2 \<and> (m1 < m2 \<or> (m1 = m2 \<and> (d1 < d2 \<or> (d1 = d2 \<and> t1 < t2)))))"

definition min_date :: datetime where "min_date = (1900, 1, 1, 0)"
definition max_date :: datetime where "max_date = (2030, 12, 31, 0)"

text \<open>Conversion of one argument: a string is parsed (a failure is the \<open>ValueError\<close>
  the \<open>except\<close> clause turns into a ValidationError), anything else is passed on.\<close>

definition convert_date :: "(string \<Rightarrow> string + datetime) \<Rightarrow> date_arg \<Rightarrow> string + datetime option" where
  "convert_date strptime d =
     (case d of
        DStr s \<Rightarrow> (case strptime s of Inl msg \<Rightarrow> Inl msg | Inr dt \<Rightarrow> Inr (Some dt))
      | DDateTime dt \<Rightarrow> Inr (Some dt)
      | DNone \<Rightarrow> Inr None)"

definition invalid_date_format :: "string \<Rightarrow> exn" where
  "invalid_date_format msg =
     validation_error (''Invalid date format: '' @ msg) (Some ''INVALID_DATE_FORMAT'')
       (Some ''date'') (Some ''%Y-%m-%d'') (Some msg) Map.empty"

definition validate_and_convert_dates ::
  "(string \<Rightarrow> string + datetime) \<Rightarrow> (datetime \<Rightarrow> string) \<Rightarrow> date_arg \<Rightarrow> date_arg
     \<Rightarrow> exn + datetime \<times> datetime" where
  "validate_and_convert_dates strptime render start_date end_date =
     (case convert_date strptime start_date of
        Inl msg \<Rightarrow> Inl (invalid_date_format msg)
      | Inr start_opt \<Rightarrow>
     (case convert_date strptime end_date of
        Inl msg \<Rightarrow> Inl (invalid_date_format msg)
      | Inr end_opt \<Rightarrow>
     (case (start_opt, end_opt) of
        (Some start_dt, Some end_dt) \<Rightarrow>
          if \<not> dt_less start_dt end_dt then
            Inl (validation_error ''Start date must be before end date''
                   (Some ''INVALID_DATE_RANGE'') (Some ''date_range'')
                   (Some ''start_date < end_date'')
                   (Some (''start_date='' @ render start_dt @ '', end_date='' @ render end_dt))
                   Map.empty)
          else if dt_less start_dt min_date \<or> dt_less max_date end_dt then
            Inl (validation_error
                   (''Dates must be between '' @ render min_date @ '' and '' @ render max_date)
                   (Some ''DATE_OUT_OF_BOUNDS'') (Some ''date_range'')
                   (Some (render min_date @ '' to '' @ render max_date))
                   (Some (render start_dt @ '' to '' @ render end_dt))
                   Map.empty)
          else Inr (start_dt, end_dt)
      | _ \<Rightarrow> Inl (builtin_exn ''TypeError'' ''>= not supported for NoneType''))))"


section \<open>Series and tables\<close>

text \<open>
  A series (\<open>pd.Series(values, index=dates)\<close>) is the list of its (date, value) pairs
  in construction order; dates are timestamps, values are left abstract.  A table
  (\<open>pd.DataFrame\<close>) is its row index and its columns in order, each column a list of
  cells along the index, \<open>None\<close> being the absent value.
\<close>

type_synonym date = int

type_synonym 'v series = "(date \<times> 'v) list"

record 'v dataframe =
  df_index :: "date list"
  df_columns :: "(string \<times> 'v option list) list"

definition empty_dataframe :: "'v dataframe" where
  "empty_dataframe = \<lparr>df_index = [], df_columns = []\<rparr>"

text \<open>Assignment to a key of an insertion-ordered dictionary.\<close>

definition dict_set :: "'k \<Rightarrow> 'a \<Rightarrow> ('k \<times> 'a) list \<Rightarrow> ('k \<times> 'a) list" where
  "dict_set k v d =
     (if k \<in> fst ` set d then map (\<lambda>(k', v'). if k' = k then (k', v) else (k', v')) d
      else d @ [(k, v)])"

text \<open>
  \<open>df[name] = series\<close>, as the library defines it.  A frame without rows takes the
  index of a non-empty series.  Otherwise the series is conformed to the frame's
  index: taken as it is when the two indexes are equal; refused with \<open>ValueError\<close>
  when its own index repeats a label; else looked up label by label, a label of the
  frame that the series lacks giving an absent cell, and a label of the series that
  the frame lacks being dropped.
\<close>

definition df_setitem :: "'v dataframe \<Rightarrow> string \<Rightarrow> 'v series \<Rightarrow> exn + 'v dataframe" where
  "df_setitem df name s =
     (if df_index df = [] \<and> s \<noteq> [] then
        Inr \<lparr>df_index = map fst s,
             df_columns = dict_set name (map (Some \<circ> snd) s)
                            (map (\<lambda>(n, col). (n, replicate (length s) None)) (df_columns df))\<rparr>
      else if map fst s = df_index df then
        Inr (df\<lparr>df_columns := dict_set name (map (Some \<circ> snd) s) (df_columns df)\<rparr>)
      else if \<not> distinct (map fst s) then
        Inl (builtin_exn ''ValueError'' ''cannot reindex on an axis with duplicate labels'')
      else
        Inr (df\<lparr>df_columns := dict_set name (map (map_of s) (df_index df)) (df_columns df)\<rparr>))"


section \<open>\<open>get_data\<close> (both clients)\<close>

text \<open>
  The body of the \<open>try\<close> inside the loop (rate limiter, one HTTP request, parsing of
  the response) is the parameter \<open>attempt\<close>: from a state, a variable code and the two
  date strings it yields a series or an exception, and a new state.
\<close>

type_synonym ('st, 'v) attempt = "'st \<Rightarrow> string \<Rightarrow> (exn + 'v series) \<times> 'st"

text \<open>The loop over \<open>variable_list\<close> with its accumulators \<open>all_data\<close> and
  \<open>failed_variables\<close>: any exception, and an empty series, mark the variable failed.\<close>

fun collect ::
  "('st, 'v) attempt \<Rightarrow> string list \<Rightarrow> (string \<times> 'v series) list \<Rightarrow> string list \<Rightarrow> 'st
     \<Rightarrow> (string \<times> 'v series) list \<times> string list \<times> 'st" where
  "collect attempt [] all_data failed_variables st = (all_data, failed_variables, st)"
| "collect attempt (variable # rest) all_data failed_variables st =
     (case attempt st variable of
        (Inr series_data, st') \<Rightarrow>
          if series_data \<noteq> [] then
            collect attempt rest (dict_set variable series_data all_data) failed_variables st'
          else collect attempt rest all_data (failed_variables @ [variable]) st'
      | (Inl e, st') \<Rightarrow> collect attempt rest all_data (failed_variables @ [variable]) st')"

text \<open>\<open>for variable, series in all_data.items(): combined_df[variable] = series\<close>.\<close>

fun combine :: "(string \<times> 'v series) list \<Rightarrow> 'v dataframe \<Rightarrow> exn + 'v dataframe" where
  "combine [] combined_df = Inr combined_df"
| "combine ((variable, series) # rest) combined_df =
     (case df_setitem combined_df variable series of
        Inl e \<Rightarrow> Inl e
      | Inr df' \<Rightarrow> combine rest df')"

text \<open>
  \<open>get_data\<close>.  \<open>api\<close> is the name used in the not-connected message (``FRED'' or
  ``Haver Analytics''), the only difference between the two clients' methods apart
  from the try body; \<open>attempt\<close> receives the two rendered dates.
\<close>

definition get_data ::
  "string \<Rightarrow> (string \<Rightarrow> string + datetime) \<Rightarrow> (datetime \<Rightarrow> string)
     \<Rightarrow> (string \<Rightarrow> string \<Rightarrow> ('st, 'v) attempt)
     \<Rightarrow> 'z data_source_scheme \<Rightarrow> variables_arg \<Rightarrow> date_arg \<Rightarrow> date_arg \<Rightarrow> 'st
     \<Rightarrow> (exn + 'v dataframe) \<times> 'st" where
  "get_data api strptime render attempt c variables start_date end_date st =
     (if \<not> is_connected c then
        (Inl (connection_error (''Not connected to '' @ api @ '' API. Call connect() first.'')
                None None), st)
      else case validate_variable_codes variables of
        Inl e \<Rightarrow> (Inl e, st)
      | Inr variable_list \<Rightarrow>
     (case validate_and_convert_dates strptime render start_date end_date of
        Inl e \<Rightarrow> (Inl e, st)
      | Inr (start_dt, end_dt) \<Rightarrow>
          let start_str = render start_dt; end_str = render end_dt in
          (case collect (attempt start_str end_str) variable_list [] [] st of
             (all_data, failed_variables, st') \<Rightarrow>
               if all_data = [] then
                 (Inl (data_retrieval_error ''No data retrieved for any requested variables''
                         variable_list (Some (start_str, end_str))), st')
               else (combine all_data empty_dataframe, st'))))"

definition fred_get_data where "fred_get_data = get_data ''FRED''"

definition haver_get_data where "haver_get_data = get_data ''Haver Analytics''"

text \<open>The variables of a list that yield data, in fetch order: those whose attempt
  returns a non-empty series.\<close>

fun yielding :: "('st, 'v) attempt \<Rightarrow> string list \<Rightarrow> 'st \<Rightarrow> string list" where
  "yielding attempt [] st = []"
| "yielding attempt (variable # rest) st =
     (case attempt st variable of
        (Inr series_data, st') \<Rightarrow>
          if series_data \<noteq> [] then variable # yielding attempt rest st'
          else yielding attempt rest st'
      | (Inl e, st') \<Rightarrow> yielding attempt rest st')"


text \<open>A series that enters the merge without trouble: it has an observation, and no
  date twice.\<close>

definition good_series :: "'v series \<Rightarrow> bool" where
  "good_series s \<longleftrightarrow> s \<noteq> [] \<and> distinct (map fst s)"


section \<open>Metadata (\<open>get_metadata\<close>, \<open>get_variable_metadata\<close>, both clients)\<close>

text \<open>The common metadata record, and the description of a series as the source sends
  it: a mapping from field names to texts.\<close>

record variable_metadata =
  md_code :: string
  md_name :: string
  md_description :: string
  md_units :: string
  md_frequency :: string
  md_source :: string
  md_category :: string
  md_start_date :: string
  md_end_date :: string

type_synonym raw_info = "string \<rightharpoonup> string"

definition info_get :: "raw_info \<Rightarrow> string \<Rightarrow> string" where
  "info_get info k = (case info k of Some v \<Rightarrow> v | None \<Rightarrow> [])"

definition fred_metadata_entry :: "string \<Rightarrow> raw_info \<Rightarrow> variable_metadata" where
  "fred_metadata_entry variable series_info =
     \<lparr>md_code = variable, md_name = info_get series_info ''title'',
      md_description = info_get series_info ''notes'', md_units = info_get series_info ''units'',
      md_frequency = info_get series_info ''frequency'', md_source = ''FRED'',
      md_category = info_get series_info ''group'',
      md_start_date = info_get series_info ''observation_start'',
      md_end_date = info_get series_info ''observation_end''\<rparr>"

definition haver_metadata_entry :: "string \<Rightarrow> raw_info \<Rightarrow> variable_metadata" where
  "haver_metadata_entry variable meta_info =
     \<lparr>md_code = variable, md_name = info_get meta_info ''name'',
      md_description = info_get meta_info ''description'', md_units = info_get meta_info ''units'',
      md_frequency = info_get meta_info ''frequency'', md_source = ''Haver'',
      md_category = info_get meta_info ''category'',
      md_start_date = info_get meta_info ''start_date'',
      md_end_date = info_get meta_info ''end_date''\<rparr>"

text \<open>
  The \<open>try\<close> body up to the test for a description in the payload (rate limiter,
  request, status check, \<open>validate_response\<close>) is the parameter \<open>lookup\<close>: it raises,
  or returns the description the payload carries, \<open>None\<close> when it carries none
  (FRED: no non-empty \<open>seriess\<close>; Haver: no \<open>metadata\<close>).
\<close>

type_synonym 'st meta_lookup = "'st \<Rightarrow> string \<Rightarrow> (exn + raw_info option) \<times> 'st"

fun metadata_loop ::
  "(string \<Rightarrow> raw_info \<Rightarrow> variable_metadata) \<Rightarrow> 'st meta_lookup \<Rightarrow> string list
     \<Rightarrow> (string \<times> variable_metadata) list \<Rightarrow> 'st
     \<Rightarrow> (string \<times> variable_metadata) list \<times> 'st" where
  "metadata_loop entry lookup [] metadata st = (metadata, st)"
| "metadata_loop entry lookup (variable # rest) metadata st =
     (case lookup st variable of
        (Inr (Some info), st') \<Rightarrow>
          metadata_loop entry lookup rest (dict_set variable (entry variable info) metadata) st'
      | (Inr None, st') \<Rightarrow> metadata_loop entry lookup rest metadata st'
      | (Inl e, st') \<Rightarrow> metadata_loop entry lookup rest metadata st')"

definition get_metadata ::
  "string \<Rightarrow> (string \<Rightarrow> raw_info \<Rightarrow> variable_metadata) \<Rightarrow> 'st meta_lookup
     \<Rightarrow> 'z data_source_scheme \<Rightarrow> variables_arg \<Rightarrow> 'st
     \<Rightarrow> (exn + (string \<times> variable_metadata) list) \<times> 'st" where
  "get_metadata api entry lookup c variables st =
     (if \<not> is_connected c then
        (Inl (connection_error (''Not connected to '' @ api @ '' API. Call connect() first.'')
                None None), st)
      else case validate_variable_codes variables of
        Inl e \<Rightarrow> (Inl e, st)
      | Inr variable_list \<Rightarrow>
          (case metadata_loop entry lookup variable_list [] st of
             (metadata, st') \<Rightarrow> (Inr metadata, st')))"

text \<open>\<open>get_variable_metadata\<close>: the list form is called with \<open>[variable]\<close> and the
  result is searched for \<open>variable\<close> as it was given.\<close>

definition get_variable_metadata ::
  "string \<Rightarrow> (string \<Rightarrow> raw_info \<Rightarrow> variable_metadata) \<Rightarrow> 'st meta_lookup
     \<Rightarrow> 'z data_source_scheme \<Rightarrow> string \<Rightarrow> 'st \<Rightarrow> (exn + variable_metadata) \<times> 'st" where
  "get_variable_metadata api entry lookup c variable st =
     (case get_metadata api entry lookup c (VList [variable]) st of
        (Inl e, st') \<Rightarrow> (Inl e, st')
      | (Inr metadata_dict, st') \<Rightarrow>
          (case map_of metadata_dict variable of
             Some m \<Rightarrow> (Inr m, st')
           | None \<Rightarrow>
               (Inl (data_retrieval_error (''No metadata found for variable '' @ variable)
                       [variable] None), st')))"

definition fred_get_metadata where
  "fred_get_metadata = get_metadata ''FRED'' fred_metadata_entry"

definition haver_get_metadata where
  "haver_get_metadata = get_metadata ''Haver Analytics'' haver_metadata_entry"

definition fred_get_variable_metadata where
  "fred_get_variable_metadata = get_variable_metadata ''FRED'' fred_metadata_entry"

definition haver_get_variable_metadata where
  "haver_get_variable_metadata = get_variable_metadata ''Haver Analytics'' haver_metadata_entry"

text \<open>A code is absent from the source when no lookup of it, in any state, returns a
  description.\<close>

definition absent_from_source :: "'st meta_lookup \<Rightarrow> string \<Rightarrow> bool" where
  "absent_from_source lookup code \<longleftrightarrow> (\<forall>st info. fst (lookup st code) \<noteq> Inr (Some info))"


section \<open>Scoped acquisition (\<open>__enter__\<close>, \<open>__exit__\<close> and the \<open>with\<close> statement)\<close>

text \<open>
  \<open>connect\<close> (the decorated method: probe request and retries) and the body of the
  block are state transformers on the client that return or raise.  \<open>__enter__\<close>
  calls \<open>connect\<close> and ignores its value.  \<open>__exit__\<close> calls \<open>disconnect\<close> and returns
  \<open>None\<close> (clients) or \<open>False\<close> (base class): the exception is not suppressed.
\<close>

definition enter ::
  "('c \<Rightarrow> (exn + bool) \<times> 'c) \<Rightarrow> 'c \<Rightarrow> (exn + unit) \<times> 'c" where
  "enter connect c = (case connect c of (Inl e, c') \<Rightarrow> (Inl e, c') | (Inr b, c') \<Rightarrow> (Inr (), c'))"

definition exit_scope :: "'z data_source_scheme \<Rightarrow> exn option \<Rightarrow> bool \<times> 'z data_source_scheme" where
  "exit_scope c exc = (False, disconnect c)"

text \<open>
  \<open>with client: body\<close>.  If \<open>__enter__\<close> raises, the block is not entered and
  \<open>__exit__\<close> is not called.  Otherwise \<open>__exit__\<close> is called with the body's
  exception, if any, and that exception is re-raised unless \<open>__exit__\<close> returned a true
  value (\<open>Inr None\<close> stands for a suppressed exception).
\<close>

definition with_statement ::
  "('z data_source_scheme \<Rightarrow> (exn + bool) \<times> 'z data_source_scheme)
     \<Rightarrow> ('z data_source_scheme \<Rightarrow> (exn + 'a) \<times> 'z data_source_scheme)
     \<Rightarrow> 'z data_source_scheme \<Rightarrow> (exn + 'a option) \<times> 'z data_source_scheme" where
  "with_statement connect body c =
     (case enter connect c of
        (Inl e, c1) \<Rightarrow> (Inl e, c1)
      | (Inr u, c1) \<Rightarrow>
          (case body c1 of
             (Inr x, c2) \<Rightarrow> (Inr (Some x), snd (exit_scope c2 None))
           | (Inl e, c2) \<Rightarrow>
               (case exit_scope c2 (Some e) of
                  (suppress, c3) \<Rightarrow> (if suppress then Inr None else Inl e, c3))))"


section \<open>Client construction and the factory (data\_sources/\_\_init\_\_.py)\<close>



























chapter \<open>Verified properties\<close>

section \<open>Properties of the variable-code validation\<close>

lemma validate_loop_char:
  "validate_loop vars ok bad =
     (ok @ map normalize (filter code_ok vars),
      bad @ map describe_invalid (filter (\<lambda>v. \<not> code_ok v) vars))"
proof (induction vars arbitrary: ok bad)
  case Nil
  show ?case by simp
next
  case (Cons v vs)
  show ?case
    by (simp add: Cons.IH Let_def normalize_def code_ok_def describe_invalid_def)
qed

lemma filter_all_ok: "(\<forall>v \<in> set vars. code_ok v) \<Longrightarrow> filter (\<lambda>v. \<not> code_ok v) vars = []"
  by (induction vars) auto

lemma filter_some_bad: "\<not> (\<forall>v \<in> set vars. code_ok v) \<Longrightarrow> filter (\<lambda>v. \<not> code_ok v) vars \<noteq> []"
  by (induction vars) auto

lemma validate_list_ok:
  assumes "\<forall>v \<in> set vars. code_ok v"
  shows "validate_variable_codes (VList vars) = Inr (map normalize vars)"
proof -
  have "filter code_ok vars = vars" using assms by (induction vars) auto
  then show ?thesis
    using assms by (simp add: validate_variable_codes_def validate_loop_char filter_all_ok)
qed

lemma validate_list_bad:
  assumes "\<not> (\<forall>v \<in> set vars. code_ok v)"
  shows "\<exists>e. validate_variable_codes (VList vars) = Inl e \<and> cls e = ValidationError
            \<and> message e = ''Invalid variable codes: ''
                 @ join '', '' (map describe_invalid (filter (\<lambda>v. \<not> code_ok v) vars))"
proof -
  have ne: "map describe_invalid (filter (\<lambda>v. \<not> code_ok v) vars) \<noteq> []"
    using filter_some_bad [OF assms] by simp
  show ?thesis
    using ne by (simp add: validate_variable_codes_def validate_loop_char
                           validation_error_def base_init_def)
qed


text \<open>
  C6 (as amended).  For every list of codes: when every entry is non-empty after
  trimming and at most 50 characters long, validation returns the list of the
  uppercase-trimmed entries; otherwise it raises a ValidationError whose message lists
  every rejected entry, in order, each with its reason.  Emptiness and length are the
  only tests: the characters of an entry are not examined.
\<close>

theorem validate_variable_codes_normalizes_or_lists_all:
  "((\<forall>v \<in> set vars. code_ok v) \<longrightarrow>
      validate_variable_codes (VList vars) = Inr (map normalize vars))
   \<and> (\<not> (\<forall>v \<in> set vars. code_ok v) \<longrightarrow>
      (\<exists>e. validate_variable_codes (VList vars) = Inl e \<and> cls e = ValidationError
          \<and> message e = ''Invalid variable codes: ''
               @ join '', '' (map describe_invalid (filter (\<lambda>v. \<not> code_ok v) vars))))"
  using validate_list_ok [of vars] validate_list_bad [of vars] by blast

lemma code_ok_examples:
  "code_ok '' fedfunds ''" "code_ok ''dgs10''" "\<not> code_ok ''  ''"
  "normalize '' fedfunds '' = ''FEDFUNDS''" "normalize ''dgs10'' = ''DGS10''"
  "normalize ''  '' = []"
  by (simp_all add: code_ok_def normalize_def upper_def strip_def isspace_def upper_char_def
        lowercase_letters_def uppercase_letters_def)

theorem validate_variable_codes_normalizes_or_lists_all_witness:
  "validate_variable_codes (VList ['' fedfunds '', ''dgs10'']) = Inr [''FEDFUNDS'', ''DGS10'']
   \<and> (\<exists>e. validate_variable_codes (VList [''dgs10'', ''  '']) = Inl e
          \<and> cls e = ValidationError
          \<and> message e = ''Invalid variable codes: '' @ quoted ''  '' @ '' (empty)'')"
  using validate_variable_codes_normalizes_or_lists_all [of "['' fedfunds '', ''dgs10'']"]
        validate_variable_codes_normalizes_or_lists_all [of "[''dgs10'', ''  '']"]
  by (simp add: code_ok_examples describe_invalid_def)

text \<open>
  C6 as stated fails: the entry \<open>a b$\<close> contains a space and a dollar sign, characters
  outside letters, digits, underscore and hyphen, yet it is accepted and normalized.
\<close>

theorem validate_variable_codes_charset_counterexample:
  "\<not> list_all spec_code_char ''a b$''
   \<and> validate_variable_codes (VList [''a b$'']) = Inr [''A B$'']"
  by (simp add: spec_code_char_def validate_variable_codes_def upper_def strip_def isspace_def
        upper_char_def lowercase_letters_def uppercase_letters_def)

section \<open>Properties of the FRED rate limiter\<close>

lemma fred_enforce_in_window_below_limit:
  assumes "now - minute_window_start c < 60" "requests_this_minute c < rate_limit c"
  shows "\<exists>slept c'. fred_enforce_rate_limit fmt now now_after c = (Inr slept, c')
           \<and> requests_this_minute c' = requests_this_minute c + 1
           \<and> minute_window_start c' = minute_window_start c
           \<and> rate_limit c' = rate_limit c"
  using assms by (simp add: fred_enforce_rate_limit_def Let_def)

lemma fred_requests_fill_window:
  assumes "\<forall>(now, now_after) \<in> set ts. now - minute_window_start c < 60"
      and "requests_this_minute c + int (length ts) \<le> rate_limit c"
  shows "\<exists>c'. fred_requests fmt ts c = Some c'
           \<and> requests_this_minute c' = requests_this_minute c + int (length ts)
           \<and> minute_window_start c' = minute_window_start c
           \<and> rate_limit c' = rate_limit c"
  using assms
proof (induction ts arbitrary: c)
  case Nil
  then show ?case by simp
next
  case (Cons t ts)
  obtain now now_after where t: "t = (now, now_after)" by (cases t)
  have w: "now - minute_window_start c < 60" using Cons.prems(1) t by simp
  have b: "requests_this_minute c < rate_limit c" using Cons.prems(2) by simp
  obtain slept c1 where step: "fred_enforce_rate_limit fmt now now_after c = (Inr slept, c1)"
      and c1: "requests_this_minute c1 = requests_this_minute c + 1"
              "minute_window_start c1 = minute_window_start c" "rate_limit c1 = rate_limit c"
    using fred_enforce_in_window_below_limit [OF w b] by blast
  have "\<forall>(now, now_after) \<in> set ts. now - minute_window_start c1 < 60"
    using Cons.prems(1) c1 by simp
  moreover have "requests_this_minute c1 + int (length ts) \<le> rate_limit c1"
    using Cons.prems(2) c1 by simp
  ultimately obtain c' where "fred_requests fmt ts c1 = Some c'"
      "requests_this_minute c' = requests_this_minute c1 + int (length ts)"
      "minute_window_start c' = minute_window_start c1" "rate_limit c' = rate_limit c1"
    using Cons.IH [of c1] by blast
  then show ?case using step c1 t by simp
qed

lemma fred_enforce_at_limit_in_window:
  assumes "now - minute_window_start c < 60" "requests_this_minute c \<ge> rate_limit c"
  shows "fred_enforce_rate_limit fmt now now_after c =
           (Inl (rate_limit_error
                   (''FRED API rate limit exceeded. Wait ''
                      @ fmt (60 - (now - minute_window_start c)) @ '' seconds'')
                   (Some (rate_limit c)) None
                   (Some (\<lfloor>60 - (now - minute_window_start c)\<rfloor> + 1))), c)"
  using assms by (simp add: fred_enforce_rate_limit_def Let_def)

lemma fred_enforce_after_window:
  assumes "60 \<le> now - minute_window_start c" "0 < rate_limit c"
  shows "\<exists>slept c'. fred_enforce_rate_limit fmt now now_after c = (Inr slept, c')
           \<and> requests_this_minute c' = 1 \<and> minute_window_start c' = now"
  using assms by (simp add: fred_enforce_rate_limit_def Let_def)

lemma rate_limit_error_retry_after:
  "n \<noteq> 0 \<Longrightarrow> cls (rate_limit_error msg lmt None (Some n)) = RateLimitError
     \<and> context (rate_limit_error msg lmt None (Some n)) ''retry_after'' = Some (CNum (of_int n))"
  by (simp add: rate_limit_error_def base_init_def ctx_put_int_def truthy_int_def)

lemma remaining_wait_rounds_up:
  fixes r :: rat
  assumes "0 < r"
  shows "\<lfloor>r\<rfloor> + 1 \<noteq> 0 \<and> r < of_int (\<lfloor>r\<rfloor> + 1) \<and> of_int (\<lfloor>r\<rfloor> + 1) \<le> r + 1"
proof -
  have "0 \<le> \<lfloor>r\<rfloor>" using assms by simp
  then have "\<lfloor>r\<rfloor> + 1 \<noteq> 0" by linarith
  moreover have "r < of_int (\<lfloor>r\<rfloor> + 1)" by linarith
  moreover have "of_int (\<lfloor>r\<rfloor> + 1) \<le> r + 1" by simp
  ultimately show ?thesis by blast
qed

text \<open>
  C4.  Take a FRED client with a positive limit, and a window in which the requests
  counted so far and the requests \<open>ts\<close>, all made inside the window, add up to exactly
  the limit.  All of \<open>ts\<close> are admitted.  A further request made while fewer than 60
  seconds have passed since the window start raises a RateLimitError that carries the
  remaining wait \<open>60 - (now - window start)\<close>, as whole seconds rounded up past it, under
  \<open>retry_after\<close>, and leaves the client as it was.  A further request made 60 seconds or
  more after the window start resets the window and is admitted, as request number 1 of
  the new window.
\<close>

theorem fred_rate_limit_window:
  assumes "0 < rate_limit c"
      and "requests_this_minute c + int (length ts) = rate_limit c"
      and "\<forall>(now, now_after) \<in> set ts. now - minute_window_start c < 60"
  shows "\<exists>c'. fred_requests fmt ts c = Some c'
          \<and> (\<forall>now now_after. now - minute_window_start c < 60 \<longrightarrow>
                (\<exists>e. fred_enforce_rate_limit fmt now now_after c' = (Inl e, c')
                   \<and> cls e = RateLimitError
                   \<and> context e ''retry_after'' =
                       Some (CNum (of_int (\<lfloor>60 - (now - minute_window_start c)\<rfloor> + 1)))
                   \<and> 60 - (now - minute_window_start c)
                       < of_int (\<lfloor>60 - (now - minute_window_start c)\<rfloor> + 1)))
          \<and> (\<forall>now now_after. 60 \<le> now - minute_window_start c \<longrightarrow>
                (\<exists>slept c''. fred_enforce_rate_limit fmt now now_after c' = (Inr slept, c'')
                   \<and> requests_this_minute c'' = 1 \<and> minute_window_start c'' = now))"
proof -
  obtain c' where run: "fred_requests fmt ts c = Some c'"
      and cnt: "requests_this_minute c' = requests_this_minute c + int (length ts)"
      and ws: "minute_window_start c' = minute_window_start c"
      and lm: "rate_limit c' = rate_limit c"
    using fred_requests_fill_window [of ts c fmt] assms(2,3) by auto
  have full: "requests_this_minute c' \<ge> rate_limit c'" using cnt lm assms(2) by simp
  have inside: "\<exists>e. fred_enforce_rate_limit fmt now now_after c' = (Inl e, c')
                   \<and> cls e = RateLimitError
                   \<and> context e ''retry_after'' =
                       Some (CNum (of_int (\<lfloor>60 - (now - minute_window_start c)\<rfloor> + 1)))
                   \<and> 60 - (now - minute_window_start c)
                       < of_int (\<lfloor>60 - (now - minute_window_start c)\<rfloor> + 1)"
    if w: "now - minute_window_start c < 60" for now now_after
  proof -
    have pos: "0 < 60 - (now - minute_window_start c)" using w by simp
    note r = remaining_wait_rounds_up [OF pos]
    have "fred_enforce_rate_limit fmt now now_after c' =
           (Inl (rate_limit_error
                   (''FRED API rate limit exceeded. Wait ''
                      @ fmt (60 - (now - minute_window_start c)) @ '' seconds'')
                   (Some (rate_limit c')) None
                   (Some (\<lfloor>60 - (now - minute_window_start c)\<rfloor> + 1))), c')"
      using fred_enforce_at_limit_in_window [where c = c' and now = now] w full ws by simp
    then show ?thesis
      using rate_limit_error_retry_after r by blast
  qed
  have after: "\<exists>slept c''. fred_enforce_rate_limit fmt now now_after c' = (Inr slept, c'')
                   \<and> requests_this_minute c'' = 1 \<and> minute_window_start c'' = now"
    if "60 \<le> now - minute_window_start c" for now now_after
    using fred_enforce_after_window [where c = c' and now = now] that ws lm assms(1) by simp
  show ?thesis using run inside after by blast
qed

theorem fred_rate_limit_window_witness:
  "\<exists>c'. fred_requests (\<lambda>r. ''x'') [(100, 201 / 2), (101, 101)]
           \<lparr>api_key = Some ''k'', source_name = ''Unknown Source'', base_url = ''u'',
            rate_limit = 2, is_connected = True, session = True, timeout = 30,
            last_request_time = 100, requests_this_minute = 0, minute_window_start = 100\<rparr>
         = Some c'
     \<and> (\<exists>e. fred_enforce_rate_limit (\<lambda>r. ''x'') (221 / 2) (221 / 2) c' = (Inl e, c')
            \<and> cls e = RateLimitError \<and> context e ''retry_after'' = Some (CNum 50))
     \<and> (\<exists>slept c''. fred_enforce_rate_limit (\<lambda>r. ''x'') 160 160 c' = (Inr slept, c'')
            \<and> requests_this_minute c'' = 1 \<and> minute_window_start c'' = 160)"
proof -
  let ?c = "\<lparr>api_key = Some ''k'', source_name = ''Unknown Source'', base_url = ''u'',
            rate_limit = 2, is_connected = True, session = True, timeout = 30,
            last_request_time = 100, requests_this_minute = 0, minute_window_start = 100\<rparr>"
  have fl: "\<lfloor>60 - (221 / 2 - 100 :: rat)\<rfloor> + 1 = 50" by code_simp
  obtain c' where run: "fred_requests (\<lambda>r. ''x'') [(100, 201 / 2), (101, 101)] ?c = Some c'"
    and a: "\<forall>now now_after. now - minute_window_start ?c < 60 \<longrightarrow>
                (\<exists>e. fred_enforce_rate_limit (\<lambda>r. ''x'') now now_after c' = (Inl e, c')
                   \<and> cls e = RateLimitError
                   \<and> context e ''retry_after'' =
                       Some (CNum (of_int (\<lfloor>60 - (now - minute_window_start ?c)\<rfloor> + 1)))
                   \<and> 60 - (now - minute_window_start ?c)
                       < of_int (\<lfloor>60 - (now - minute_window_start ?c)\<rfloor> + 1))"
    and b: "\<forall>now now_after. 60 \<le> now - minute_window_start ?c \<longrightarrow>
                (\<exists>slept c''. fred_enforce_rate_limit (\<lambda>r. ''x'') now now_after c' = (Inr slept, c'')
                   \<and> requests_this_minute c'' = 1 \<and> minute_window_start c'' = now)"
    using fred_rate_limit_window [of ?c "[(100, 201 / 2), (101, 101)]" "\<lambda>r. ''x''"]
    by auto
  have a': "\<exists>e. fred_enforce_rate_limit (\<lambda>r. ''x'') (221 / 2) (221 / 2) c' = (Inl e, c')
            \<and> cls e = RateLimitError \<and> context e ''retry_after'' = Some (CNum 50)"
    using a [rule_format, of "221 / 2" "221 / 2"] fl by auto
  have b': "\<exists>slept c''. fred_enforce_rate_limit (\<lambda>r. ''x'') 160 160 c' = (Inr slept, c'')
            \<and> requests_this_minute c'' = 1 \<and> minute_window_start c'' = 160"
    using b [rule_format, of 160 160] by simp
  show ?thesis using run a' b' by blast
qed

text \<open>
  C10 (as amended).  When the configured limit is positive, a call of the FRED limiter
  that raises leaves the client exactly as it was: counter, window start and time of
  the last request keep their values.
\<close>

theorem fred_rate_limit_raise_keeps_state:
  assumes "0 < rate_limit c"
      and "fred_enforce_rate_limit fmt now now_after c = (Inl e, c')"
  shows "c' = c"
proof (cases "60 \<le> now - minute_window_start c")
  case True
  then show ?thesis
    using assms by (simp add: fred_enforce_rate_limit_def Let_def)
next
  case False
  then show ?thesis
    using assms by (auto simp add: fred_enforce_rate_limit_def Let_def split: if_splits)
qed

theorem fred_rate_limit_raise_keeps_state_witness:
  "\<exists>e. fred_enforce_rate_limit (\<lambda>r. ''x'') 110 110
          \<lparr>api_key = Some ''k'', source_name = ''Unknown Source'', base_url = ''u'',
           rate_limit = 2, is_connected = True, session = True, timeout = 30,
           last_request_time = 101, requests_this_minute = 2, minute_window_start = 100\<rparr>
        = (Inl e,
          \<lparr>api_key = Some ''k'', source_name = ''Unknown Source'', base_url = ''u'',
           rate_limit = 2, is_connected = True, session = True, timeout = 30,
           last_request_time = 101, requests_this_minute = 2, minute_window_start = 100\<rparr>)"
proof -
  let ?c = "\<lparr>api_key = Some ''k'', source_name = ''Unknown Source'', base_url = ''u'',
           rate_limit = 2, is_connected = True, session = True, timeout = 30,
           last_request_time = 101, requests_this_minute = 2, minute_window_start = (100::rat)\<rparr>"
  obtain e c' where r: "fred_enforce_rate_limit (\<lambda>r. ''x'') 110 110 ?c = (Inl e, c')"
    by (simp add: fred_enforce_rate_limit_def Let_def)
  have "c' = ?c"
    using fred_rate_limit_raise_keeps_state [where c = ?c and c' = c'] r by simp
  then show ?thesis using r by blast
qed

text \<open>
  C10 as stated fails for a limit of zero: a call made after the window has elapsed
  first resets the window (counter 5 becomes 0, window start 0 becomes 100) and then
  raises, so the raise follows a state change.
\<close>

theorem fred_rate_limit_raise_after_reset_counterexample:
  "\<exists>e. fst (fred_enforce_rate_limit (\<lambda>r. ''x'') 100 100
          \<lparr>api_key = Some ''k'', source_name = ''Unknown Source'', base_url = ''u'',
           rate_limit = 0, is_connected = True, session = True, timeout = 30,
           last_request_time = 10, requests_this_minute = 5, minute_window_start = 0\<rparr>) = Inl e
      \<and> cls e = RateLimitError
      \<and> requests_this_minute (snd (fred_enforce_rate_limit (\<lambda>r. ''x'') 100 100
          \<lparr>api_key = Some ''k'', source_name = ''Unknown Source'', base_url = ''u'',
           rate_limit = 0, is_connected = True, session = True, timeout = 30,
           last_request_time = 10, requests_this_minute = 5, minute_window_start = 0\<rparr>)) = 0
      \<and> minute_window_start (snd (fred_enforce_rate_limit (\<lambda>r. ''x'') 100 100
          \<lparr>api_key = Some ''k'', source_name = ''Unknown Source'', base_url = ''u'',
           rate_limit = 0, is_connected = True, session = True, timeout = 30,
           last_request_time = 10, requests_this_minute = 5, minute_window_start = 0\<rparr>)) = 100"
  by (simp add: fred_enforce_rate_limit_def Let_def rate_limit_error_def base_init_def)

section \<open>Properties of the retry wrapper\<close>


lemma base_init_no_retry_after_attr: "\<not> hasattr (base_init c m code ctx) ''retry_after''"
  by (simp add: hasattr_def base_init_def)

lemma rate_limit_error_no_attr: "\<not> hasattr (rate_limit_error msg l rt ra) ''retry_after''"
  by (simp add: rate_limit_error_def base_init_no_retry_after_attr)

lemma retry_sleep_plain:
  "\<not> hasattr e ''retry_after'' \<Longrightarrow> retry_sleep p a e = Inr (retry_delay p * backoff_factor p ^ a)"
  by (simp add: retry_sleep_def)

lemma retry_sleep_rate_limit_error:
  "retry_sleep p a (rate_limit_error msg l rt ra) = Inr (retry_delay p * backoff_factor p ^ a)"
  by (simp add: retry_sleep_plain rate_limit_error_no_attr)

lemma wrapper_loop_retry_step:
  assumes "func s = (Inl e, s')" "isinstance e (retriable_exceptions p)"
          "attempt < retry_count p" "\<not> hasattr e ''retry_after''"
  shows "wrapper_loop p fname args kwargs func (attempt # rest) le s =
           (case wrapper_loop p fname args kwargs func rest (Some e) s' of
              (res, sleeps, s'') \<Rightarrow>
                (res, retry_delay p * backoff_factor p ^ attempt # sleeps, s''))"
  using assms by (simp add: retry_sleep_plain)

lemma wrapper_loop_success_step:
  assumes "func s = (Inr r, s')"
  shows "wrapper_loop p fname args kwargs func (attempt # rest) le s = (Inr (Some r), [], s')"
  using assms by simp

lemma upt_three: "2 \<le> n \<Longrightarrow> [0 ..< n + 1] = 0 # 1 # 2 # [3 ..< n + 1]"
  by (simp add: upt_conv_Cons numeral_3_eq_3 numeral_2_eq_2)

lemma two_failures_then_success:
  assumes "2 \<le> retry_count p"
      and "func s0 = (Inl e1, s1)" "func s1 = (Inl e2, s2)" "func s2 = (Inr r, s3)"
      and "isinstance e1 (retriable_exceptions p)" "isinstance e2 (retriable_exceptions p)"
      and "\<not> hasattr e1 ''retry_after''" "\<not> hasattr e2 ''retry_after''"
  shows "handle_api_errors p fname args kwargs func s0 =
           (Inr (Some r), [retry_delay p, retry_delay p * backoff_factor p], s3)"
proof -
  have a0: "0 < retry_count p" and a1: "1 < retry_count p" using assms(1) by simp_all
  show ?thesis
    unfolding handle_api_errors_def upt_three [OF assms(1)]
    using assms a0 a1 by (simp add: retry_sleep_plain)
qed

text \<open>
  C3, evaluated where the code departs from it.  Under the decorator's defaults
  (3 retries, delay 1 second, factor 2) the operation first raises the
  \<open>RateLimitError\<close> built by \<open>RateLimitError("slow down", limit=120, retry_after=30)\<close>
  and then succeeds.  The exception carries the hint 30 in its context, it is retried,
  and the wrapper returns the success after one retry, but the sleep before that retry
  is 1 second, not 30 or more: the constructor stores the hint in the context only, so
  the wrapper's \<open>hasattr(e, 'retry_after')\<close> test is false and the hint is never read.
\<close>

theorem handle_api_errors_ignores_retry_after:
  "context (rate_limit_error ''slow down'' (Some 120) None (Some 30)) ''retry_after''
     = Some (CNum 30)
   \<and> \<not> hasattr (rate_limit_error ''slow down'' (Some 120) None (Some 30)) ''retry_after''
   \<and> handle_api_errors default_policy ''connect'' [] [] scripted
        [Inl (rate_limit_error ''slow down'' (Some 120) None (Some 30)), Inr True]
       = (Inr (Some True), [1], [])"
  by (simp add: handle_api_errors_def default_policy_def upt_conv_Cons retry_sleep_def hasattr_def
     isinstance_def issubclass_def rate_limit_error_def base_init_def ctx_put_int_def truthy_int_def)

section \<open>Properties of \<open>get_data\<close>\<close>


lemma dict_set_keys:
  "map fst (dict_set k v d) = (if k \<in> fst ` set d then map fst d else map fst d @ [k])"
  by (induction d) (auto simp: dict_set_def split: prod.splits)

lemma dict_set_key_set: "fst ` set (dict_set k v d) = insert k (fst ` set d)"
proof -
  have "set (map fst (dict_set k v d)) = insert k (set (map fst d))"
    unfolding dict_set_keys by auto
  then show ?thesis by simp
qed

lemma dict_set_distinct: "distinct (map fst d) \<Longrightarrow> distinct (map fst (dict_set k v d))"
  unfolding dict_set_keys by auto

lemma dict_set_values:
  "(k', s) \<in> set (dict_set k v d) \<Longrightarrow> s = v \<or> (k', s) \<in> set d"
  by (auto simp: dict_set_def split: if_splits)

lemma dict_set_nonempty: "dict_set k v d \<noteq> []"
  by (cases d) (auto simp: dict_set_def)


lemma collect_char:
  assumes "\<forall>st v s st'. attempt st v = (Inr s, st') \<longrightarrow> distinct (map fst s)"
      and "distinct (map fst acc)" "\<forall>(k, s) \<in> set acc. good_series s"
  shows "\<exists>ad f st'. collect attempt vs acc failed st = (ad, f, st')
           \<and> fst ` set ad = fst ` set acc \<union> set (yielding attempt vs st)
           \<and> distinct (map fst ad) \<and> (\<forall>(k, s) \<in> set ad. good_series s)
           \<and> (acc \<noteq> [] \<longrightarrow> ad \<noteq> [])"
  using assms(2,3)
proof (induction vs arbitrary: acc failed st)
  case Nil
  then show ?case by simp
next
  case (Cons v vs)
  obtain r st1 where a: "attempt st v = (r, st1)" by (cases "attempt st v")
  show ?case
  proof (cases r)
    case (Inl e)
    then show ?thesis using a Cons.IH [OF Cons.prems, of "failed @ [v]" st1] by simp
  next
    case (Inr s)
    show ?thesis
    proof (cases "s = []")
      case True
      then show ?thesis using a Inr Cons.IH [OF Cons.prems, of "failed @ [v]" st1] by simp
    next
      case False
      have ds: "distinct (map fst s)" using assms(1) a Inr by blast
      have g: "\<forall>(k, s') \<in> set (dict_set v s acc). good_series s'"
        using Cons.prems(2) False ds dict_set_values [of _ _ v s acc]
        by (auto simp: good_series_def)
      have d: "distinct (map fst (dict_set v s acc))"
        using Cons.prems(1) by (rule dict_set_distinct)
      from Cons.IH [OF d g, of failed st1]
      show ?thesis using a Inr False
        by (auto simp: dict_set_key_set dict_set_nonempty)
    qed
  qed
qed

lemma df_setitem_good:
  assumes "good_series s"
  shows "\<exists>df'. df_setitem df name s = Inr df' \<and> df_index df' \<noteq> []
           \<and> map fst (df_columns df') =
                (if name \<in> fst ` set (df_columns df) then map fst (df_columns df)
                 else map fst (df_columns df) @ [name])
           \<and> (df_index df \<noteq> [] \<longrightarrow> df_index df' = df_index df)
           \<and> (df_index df = [] \<longrightarrow> df_index df' = map fst s)"
proof -
  have m: "fst ` set (map (\<lambda>(n, col). (n, replicate (length s) (None :: 'a option))) (df_columns df))
           = fst ` set (df_columns df)" by force
  have m2: "map fst (map (\<lambda>(n, col). (n, replicate (length s) (None :: 'a option))) (df_columns df))
           = map fst (df_columns df)" by (induction "df_columns df") auto
  show ?thesis
    using assms unfolding df_setitem_def good_series_def
    by (auto simp: dict_set_keys m m2 simp del: set_map)
qed

lemma combine_good:
  assumes "\<forall>(k, s) \<in> set items. good_series s" "distinct (map fst items)"
          "fst ` set items \<inter> fst ` set (df_columns df) = {}"
  shows "\<exists>df'. combine items df = Inr df'
           \<and> map fst (df_columns df') = map fst (df_columns df) @ map fst items"
  using assms
proof (induction items arbitrary: df)
  case Nil
  then show ?case by simp
next
  case (Cons it items)
  obtain k s where it: "it = (k, s)" by (cases it)
  have gs: "good_series s" using Cons.prems(1) it by simp
  have nk: "k \<notin> fst ` set (df_columns df)" using Cons.prems(3) it by auto
  obtain df1 where s1: "df_setitem df k s = Inr df1"
      and n1: "map fst (df_columns df1) = map fst (df_columns df) @ [k]"
    using df_setitem_good [OF gs, of df k] nk by auto
  have a: "\<forall>(k, s) \<in> set items. good_series s" using Cons.prems(1) by simp
  have b: "distinct (map fst items)" using Cons.prems(2) by simp
  have "fst ` set (df_columns df1) = insert k (fst ` set (df_columns df))"
  proof -
    have "set (map fst (df_columns df1)) = insert k (set (map fst (df_columns df)))"
      unfolding n1 by simp
    then show ?thesis by simp
  qed
  then have c: "fst ` set items \<inter> fst ` set (df_columns df1) = {}"
    using Cons.prems(2,3) it by auto
  from Cons.IH [OF a b c] show ?case using s1 n1 it by simp
qed


text \<open>
  Partial success where the merge goes through.  On a connected client, for a call
  whose variable codes and dates pass the shared validators, and a source that
  delivers at most one observation per date in each series: if no variable yields
  data the call raises DataRetrievalError; if at least one does, the call returns a
  table (it does not raise) whose columns are exactly the variables that yielded data,
  each once, whatever happened to the others.
\<close>

theorem get_data_partial_success:
  assumes "is_connected c"
      and "validate_variable_codes variables = Inr variable_list"
      and "validate_and_convert_dates strptime render start_date end_date = Inr (start_dt, end_dt)"
      and "\<forall>st v s st'. attempt (render start_dt) (render end_dt) st v = (Inr s, st')
              \<longrightarrow> distinct (map fst s)"
  shows "(yielding (attempt (render start_dt) (render end_dt)) variable_list st = [] \<longrightarrow>
            (\<exists>e. fst (get_data api strptime render attempt c variables start_date end_date st) = Inl e
                \<and> cls e = DataRetrievalError))
       \<and> (yielding (attempt (render start_dt) (render end_dt)) variable_list st \<noteq> [] \<longrightarrow>
            (\<exists>df. fst (get_data api strptime render attempt c variables start_date end_date st) = Inr df
                \<and> set (map fst (df_columns df))
                    = set (yielding (attempt (render start_dt) (render end_dt)) variable_list st)
                \<and> distinct (map fst (df_columns df))))"
proof -
  let ?att = "attempt (render start_dt) (render end_dt)"
  obtain ad f st' where col: "collect ?att variable_list [] [] st = (ad, f, st')"
      and keys: "fst ` set ad = set (yielding ?att variable_list st)"
      and dist: "distinct (map fst ad)" and good: "\<forall>(k, s) \<in> set ad. good_series s"
    using collect_char [of ?att "[]" variable_list "[]" st] assms(4) by auto
  have gd: "get_data api strptime render attempt c variables start_date end_date st =
              (if ad = [] then
                 (Inl (data_retrieval_error ''No data retrieved for any requested variables''
                         variable_list (Some (render start_dt, render end_dt))), st')
               else (combine ad empty_dataframe, st'))"
    using assms(1,2,3) col by (simp add: get_data_def Let_def)
  show ?thesis
  proof (cases "ad = []")
    case True
    then have "yielding ?att variable_list st = []" using keys by simp
    moreover have "cls (data_retrieval_error ''No data retrieved for any requested variables''
                         variable_list (Some (render start_dt, render end_dt))) = DataRetrievalError"
      by (simp add: data_retrieval_error_def base_init_def)
    ultimately show ?thesis using gd True by simp
  next
    case False
    then have ne: "yielding ?att variable_list st \<noteq> []" using keys by auto
    obtain df where cb: "combine ad empty_dataframe = Inr df"
        and names: "map fst (df_columns df) = map fst ad"
      using combine_good [OF good dist, of empty_dataframe] by (auto simp: empty_dataframe_def)
    have "set (map fst (df_columns df)) = set (yielding ?att variable_list st)"
      using names keys by simp
    moreover have "distinct (map fst (df_columns df))" using names dist by simp
    ultimately show ?thesis using gd False cb ne by simp
  qed
qed

lemma example_codes:
  "validate_variable_codes (VList [''fedfunds'', ''bogus'']) = Inr [''FEDFUNDS'', ''BOGUS'']"
  "validate_variable_codes (VList [''bogus'']) = Inr [''BOGUS'']"
  "validate_variable_codes (VList [''A'', ''B'']) = Inr [''A'', ''B'']"
  "validate_variable_codes (VList [''B'', ''A'']) = Inr [''B'', ''A'']"
  by (simp_all add: validate_variable_codes_def upper_def strip_def isspace_def
        upper_char_def lowercase_letters_def uppercase_letters_def)

lemma example_dates:
  "validate_and_convert_dates strptime render
     (DDateTime (2023, 1, 1, 0)) (DDateTime (2023, 1, 31, 0))
   = Inr ((2023, 1, 1, 0), (2023, 1, 31, 0))"
  by (simp add: validate_and_convert_dates_def convert_date_def min_date_def max_date_def)

theorem get_data_partial_success_witness:
  "(\<exists>df. fst (get_data ''FRED'' (\<lambda>s. Inl ''no'') (\<lambda>d. ''d'')
             (\<lambda>a b st v. (if v = ''FEDFUNDS'' then Inr [(1, 5 :: rat)]
                           else Inl (builtin_exn ''HTTPError'' ''400''), st :: nat))
             \<lparr>api_key = Some ''k'', source_name = ''Unknown Source'', base_url = ''u'',
              rate_limit = 120, is_connected = True, session = True, timeout = 30,
              last_request_time = 0\<rparr>
             (VList [''fedfunds'', ''bogus''])
             (DDateTime (2023, 1, 1, 0)) (DDateTime (2023, 1, 31, 0)) 0) = Inr df
        \<and> set (map fst (df_columns df)) = {''FEDFUNDS''})
   \<and> (\<exists>e. fst (get_data ''FRED'' (\<lambda>s. Inl ''no'') (\<lambda>d. ''d'')
             (\<lambda>a b st v. (if v = ''FEDFUNDS'' then Inr [(1, 5 :: rat)]
                           else Inl (builtin_exn ''HTTPError'' ''400''), st :: nat))
             \<lparr>api_key = Some ''k'', source_name = ''Unknown Source'', base_url = ''u'',
              rate_limit = 120, is_connected = True, session = True, timeout = 30,
              last_request_time = 0\<rparr>
             (VList [''bogus''])
             (DDateTime (2023, 1, 1, 0)) (DDateTime (2023, 1, 31, 0)) 0) = Inl e
        \<and> cls e = DataRetrievalError)"
proof -
  let ?att = "\<lambda>(a :: string) (b :: string) st v.
                (if v = ''FEDFUNDS'' then Inr [(1 :: int, 5 :: rat)]
                 else Inl (builtin_exn ''HTTPError'' ''400''), st :: nat)"
  let ?c = "\<lparr>api_key = Some ''k'', source_name = ''Unknown Source'', base_url = ''u'',
              rate_limit = 120, is_connected = True, session = True, timeout = 30,
              last_request_time = 0\<rparr>"
  have conn: "is_connected ?c" by simp
  have one: "\<forall>st v s st'. ?att ''d'' ''d'' st v = (Inr s, st') \<longrightarrow> distinct (map fst s)"
    by (auto split: if_splits)
  have y1: "yielding (?att ''d'' ''d'') [''FEDFUNDS'', ''BOGUS''] 0 = [''FEDFUNDS'']" by simp
  have y2: "yielding (?att ''d'' ''d'') [''BOGUS''] 0 = []" by simp
  show ?thesis
    using get_data_partial_success [where c = ?c and attempt = ?att and render = "\<lambda>d. ''d''"
            and api = "''FRED''" and st = 0
            and strptime = "\<lambda>s. Inl ''no''",
            OF conn example_codes(1) example_dates one]
          get_data_partial_success [where c = ?c and attempt = ?att and render = "\<lambda>d. ''d''"
            and api = "''FRED''" and st = 0
            and strptime = "\<lambda>s. Inl ''no''",
            OF conn example_codes(2) example_dates one]
    unfolding y1 y2 by auto
qed

lemma combine_keeps_index:
  assumes "\<forall>(k, s) \<in> set items. good_series s" "df_index df \<noteq> []"
      and "combine items df = Inr df'"
  shows "df_index df' = df_index df"
  using assms
proof (induction items arbitrary: df)
  case Nil
  then show ?case by simp
next
  case (Cons it items)
  obtain k s where it: "it = (k, s)" by (cases it)
  have gs: "good_series s" using Cons.prems(1) it by simp
  obtain df1 where s1: "df_setitem df k s = Inr df1" and i1: "df_index df1 = df_index df"
    using df_setitem_good [OF gs, of df k] Cons.prems(2) by auto
  have "combine items df1 = Inr df'" using Cons.prems(3) it s1 by simp
  moreover have "\<forall>(k, s) \<in> set items. good_series s" using Cons.prems(1) by simp
  ultimately have "df_index df' = df_index df1"
    using Cons.IH [of df1] i1 Cons.prems(2) by simp
  then show ?case using i1 by simp
qed

lemma combine_index_is_first_series:
  assumes "\<forall>(k, s) \<in> set ((k0, s0) # items). good_series s"
      and "combine ((k0, s0) # items) empty_dataframe = Inr df"
  shows "df_index df = map fst s0"
proof -
  have g0: "good_series s0" using assms(1) by simp
  obtain df1 where s1: "df_setitem empty_dataframe k0 s0 = Inr df1"
      and i1: "df_index df1 = map fst s0" and n1: "df_index df1 \<noteq> []"
    using df_setitem_good [OF g0, of empty_dataframe k0] by (auto simp: empty_dataframe_def)
  have "combine items df1 = Inr df" using assms(2) s1 by simp
  moreover have "\<forall>(k, s) \<in> set items. good_series s" using assms(1) by simp
  ultimately show ?thesis using combine_keeps_index [of items df1 df] n1 i1 by simp
qed

text \<open>
  C1, evaluated where the code departs from it.  The source holds series \<open>A\<close> with
  observations on dates 1 and 32, and series \<open>B\<close> with observations on dates 1, 2 and
  3; both are retrieved.  Requested as \<open>[A, B]\<close>, the table has the rows 1 and 32 only:
  the observations of \<open>B\<close> on dates 2 and 3 are gone, where the outer join has the rows
  1, 2, 3 and 32.  Requested as \<open>[B, A]\<close>, the table has the rows 1, 2 and 3, and the
  observation of \<open>A\<close> on date 32 is gone.  The row index is that of the first retrieved
  series, since each later series is assigned as a column of the frame built so far.
\<close>

theorem get_data_rows_are_first_series_dates:
  "fst (get_data ''FRED'' (\<lambda>s. Inl ''no'') (\<lambda>d. ''d'')
          (\<lambda>a b st v. (if v = ''A'' then Inr [(1, 10 :: rat), (32, 11)]
                        else Inr [(1, 20), (2, 21), (3, 22)], st :: nat))
          \<lparr>api_key = Some ''k'', source_name = ''Unknown Source'', base_url = ''u'',
           rate_limit = 120, is_connected = True, session = True, timeout = 30,
           last_request_time = 0\<rparr>
          (VList [''A'', ''B'']) (DDateTime (2023, 1, 1, 0)) (DDateTime (2023, 1, 31, 0)) 0)
     = Inr \<lparr>df_index = [1, 32],
            df_columns = [(''A'', [Some 10, Some 11]), (''B'', [Some 20, None])]\<rparr>
   \<and> fst (get_data ''FRED'' (\<lambda>s. Inl ''no'') (\<lambda>d. ''d'')
          (\<lambda>a b st v. (if v = ''A'' then Inr [(1, 10 :: rat), (32, 11)]
                        else Inr [(1, 20), (2, 21), (3, 22)], st :: nat))
          \<lparr>api_key = Some ''k'', source_name = ''Unknown Source'', base_url = ''u'',
           rate_limit = 120, is_connected = True, session = True, timeout = 30,
           last_request_time = 0\<rparr>
          (VList [''B'', ''A'']) (DDateTime (2023, 1, 1, 0)) (DDateTime (2023, 1, 31, 0)) 0)
     = Inr \<lparr>df_index = [1, 2, 3],
            df_columns = [(''B'', [Some 20, Some 21, Some 22]), (''A'', [Some 10, None, None])]\<rparr>"
  by (simp add: get_data_def example_codes validate_and_convert_dates_def convert_date_def
        min_date_def max_date_def Let_def dict_set_def empty_dataframe_def df_setitem_def)

text \<open>
  C2, evaluated where the code departs from it.  The source holds series \<open>A\<close> with
  one observation, on date 1, and series \<open>B\<close> with two observations on date 1 and one
  on date 2.  Both variables yield data, so the call is to return a table with the
  columns \<open>A\<close> and \<open>B\<close> and not to raise.  It raises instead, and not one of the
  package's errors: the \<open>ValueError\<close> with which the column assignment of the merge
  refuses a series that repeats a date, which lies outside the \<open>try\<close> of the loop.
  This is the merge by column assignment that also loses rows (C1).
\<close>

theorem get_data_raises_on_repeated_date:
  "yielding (\<lambda>st v. (if v = ''A'' then Inr [(1, 10 :: rat)]
                       else Inr [(1, 20), (1, 21), (2, 22)], st :: nat)) [''A'', ''B''] 0
     = [''A'', ''B'']
   \<and> fst (get_data ''FRED'' (\<lambda>s. Inl ''no'') (\<lambda>d. ''d'')
          (\<lambda>a b st v. (if v = ''A'' then Inr [(1, 10 :: rat)]
                        else Inr [(1, 20), (1, 21), (2, 22)], st :: nat))
          \<lparr>api_key = Some ''k'', source_name = ''Unknown Source'', base_url = ''u'',
           rate_limit = 120, is_connected = True, session = True, timeout = 30,
           last_request_time = 0\<rparr>
          (VList [''A'', ''B'']) (DDateTime (2023, 1, 1, 0)) (DDateTime (2023, 1, 31, 0)) 0)
     = Inl (builtin_exn ''ValueError'' ''cannot reindex on an axis with duplicate labels'')"
  by (simp add: get_data_def example_codes validate_and_convert_dates_def convert_date_def
        min_date_def max_date_def Let_def dict_set_def empty_dataframe_def df_setitem_def)


section \<open>Properties of the metadata operations\<close>

lemma metadata_loop_keys:
  "fst ` set (fst (metadata_loop entry lookup vs acc st)) \<subseteq> fst ` set acc \<union> set vs"
proof (induction vs arbitrary: acc st)
  case Nil
  show ?case by simp
next
  case (Cons v vs)
  obtain r st1 where a: "lookup st v = (r, st1)" by (cases "lookup st v")
  show ?case
  proof (cases r)
    case (Inl e)
    then show ?thesis using a Cons.IH [of acc st1] by auto
  next
    case (Inr opt)
    show ?thesis
    proof (cases opt)
      case None
      then show ?thesis using a Inr Cons.IH [of acc st1] by auto
    next
      case (Some info)
      have "fst ` set (fst (metadata_loop entry lookup vs (dict_set v (entry v info) acc) st1))
              \<subseteq> insert v (fst ` set acc) \<union> set vs"
        using Cons.IH [of "dict_set v (entry v info) acc" st1] by (simp add: dict_set_key_set)
      then show ?thesis using a Inr Some by auto
    qed
  qed
qed

lemma metadata_loop_absent:
  assumes "absent_from_source lookup code"
  shows "code \<in> fst ` set (fst (metadata_loop entry lookup vs acc st)) \<Longrightarrow> code \<in> fst ` set acc"
proof (induction vs arbitrary: acc st)
  case Nil
  then show ?case by simp
next
  case (Cons v vs)
  obtain r st1 where a: "lookup st v = (r, st1)" by (cases "lookup st v")
  show ?case
  proof (cases r)
    case (Inl e)
    then show ?thesis using a Cons.IH [of acc st1] Cons.prems by auto
  next
    case (Inr opt)
    show ?thesis
    proof (cases opt)
      case None
      then show ?thesis using a Inr Cons.IH [of acc st1] Cons.prems by auto
    next
      case (Some info)
      have ne: "v \<noteq> code"
      proof
        assume "v = code"
        then have "fst (lookup st code) = Inr (Some info)" using a Inr Some by simp
        then show False using assms by (simp add: absent_from_source_def)
      qed
      have "code \<in> fst ` set (fst (metadata_loop entry lookup vs (dict_set v (entry v info) acc) st1))"
        using Cons.prems a Inr Some by simp
      then have "code \<in> fst ` set (dict_set v (entry v info) acc)"
        by (rule Cons.IH)
      then show ?thesis using ne by (simp add: dict_set_key_set)
    qed
  qed
qed

lemma get_metadata_connected_valid:
  assumes "is_connected c" "\<forall>v \<in> set vars. code_ok v"
  shows "get_metadata api entry lookup c (VList vars) st =
           (Inr (fst (metadata_loop entry lookup (map normalize vars) [] st)),
            snd (metadata_loop entry lookup (map normalize vars) [] st))"
  using assms
  by (simp add: get_metadata_def validate_list_ok split: prod.splits del: metadata_loop.simps)

lemma map_of_None_if_not_key: "k \<notin> fst ` set xs \<Longrightarrow> map_of xs k = None"
  by (simp add: map_of_eq_None_iff)

lemma get_variable_metadata_raises:
  assumes "is_connected c" "code_ok v"
      and "v \<notin> fst ` set (fst (metadata_loop entry lookup [normalize v] [] st))"
  shows "\<exists>e. fst (get_variable_metadata api entry lookup c v st) = Inl e
           \<and> cls e = DataRetrievalError"
proof -
  have g: "get_metadata api entry lookup c (VList [v]) st =
           (Inr (fst (metadata_loop entry lookup [normalize v] [] st)),
            snd (metadata_loop entry lookup [normalize v] [] st))"
    using get_metadata_connected_valid [of c "[v]" api entry lookup st] assms(1,2)
    by (simp del: metadata_loop.simps)
  show ?thesis
    unfolding get_variable_metadata_def g
    using map_of_None_if_not_key [OF assms(3)]
    by (simp add: data_retrieval_error_def base_init_def del: metadata_loop.simps)
qed

lemma metadata_loop_keys_single:
  "fst ` set (fst (metadata_loop entry lookup [w] [] st)) \<subseteq> {w}"
  using metadata_loop_keys [of entry lookup "[w]" "[]" st]
  by (simp del: metadata_loop.simps)

lemma metadata_loop_absent_empty:
  assumes "absent_from_source lookup code"
  shows "code \<notin> fst ` set (fst (metadata_loop entry lookup vs [] st))"
proof
  assume "code \<in> fst ` set (fst (metadata_loop entry lookup vs [] st))"
  then have "code \<in> fst ` set ([] :: (string \<times> variable_metadata) list)" by (rule metadata_loop_absent [OF assms])
  then show False by simp
qed

lemma get_variable_metadata_absent:
  assumes "is_connected c" "code_ok v" "absent_from_source lookup (normalize v)"
  shows "\<exists>e. fst (get_variable_metadata api entry lookup c v st) = Inl e
           \<and> cls e = DataRetrievalError"
proof -
  have "v \<notin> fst ` set (fst (metadata_loop entry lookup [normalize v] [] st))"
  proof
    assume a: "v \<in> fst ` set (fst (metadata_loop entry lookup [normalize v] [] st))"
    then have "v \<in> {normalize v}" using metadata_loop_keys_single by (rule rev_subsetD)
    then have "v = normalize v" by simp
    then have "normalize v \<in> fst ` set (fst (metadata_loop entry lookup [normalize v] [] st))"
      using a by simp
    then show False using metadata_loop_absent_empty [OF assms(3)] by blast
  qed
  then show ?thesis by (rule get_variable_metadata_raises [OF assms(1,2)])
qed


lemma get_metadata_omits_absent:
  assumes "is_connected c" "\<forall>w \<in> set vars. code_ok w" "absent_from_source lookup code"
  shows "\<exists>md. fst (get_metadata api entry lookup c (VList vars) st) = Inr md
           \<and> code \<notin> fst ` set md"
proof -
  let ?md = "fst (metadata_loop entry lookup (map normalize vars) [] st)"
  have "fst (get_metadata api entry lookup c (VList vars) st) = Inr ?md"
    unfolding get_metadata_connected_valid [OF assms(1,2)] by (rule fst_conv)
  moreover have "code \<notin> fst ` set ?md" by (rule metadata_loop_absent_empty [OF assms(3)])
  ultimately show ?thesis by blast
qed

lemma get_variable_metadata_not_normalized:
  assumes "is_connected c" "code_ok v" "v \<noteq> normalize v"
  shows "\<exists>e. fst (get_variable_metadata api entry lookup c v st) = Inl e
           \<and> cls e = DataRetrievalError"
proof -
  have "v \<notin> fst ` set (fst (metadata_loop entry lookup [normalize v] [] st))"
  proof
    assume "v \<in> fst ` set (fst (metadata_loop entry lookup [normalize v] [] st))"
    then have "v \<in> {normalize v}" using metadata_loop_keys_single by (rule rev_subsetD)
    then show False using assms(3) by simp
  qed
  then show ?thesis by (rule get_variable_metadata_raises [OF assms(1,2)])
qed

lemma get_metadata_not_connected:
  "\<not> is_connected c \<Longrightarrow> \<exists>e. fst (get_metadata api entry lookup c variables st) = Inl e"
  unfolding get_metadata_def by simp

lemma get_metadata_invalid:
  assumes "\<not> code_ok v"
  shows "\<exists>e. fst (get_metadata api entry lookup c (VList [v]) st) = Inl e"
proof -
  have "\<not> (\<forall>w \<in> set [v]. code_ok w)" using assms by simp
  from validate_list_bad [OF this]
  obtain e where e: "validate_variable_codes (VList [v]) = Inl e" by blast
  show ?thesis unfolding get_metadata_def e by simp
qed

lemma get_variable_metadata_propagates:
  assumes "fst (get_metadata api entry lookup c (VList [v]) st) = Inl e"
  shows "fst (get_variable_metadata api entry lookup c v st) = Inl e"
proof -
  obtain st' where "get_metadata api entry lookup c (VList [v]) st = (Inl e, st')"
    using assms by (cases "get_metadata api entry lookup c (VList [v]) st") simp
  then show ?thesis unfolding get_variable_metadata_def by simp
qed

lemma get_variable_metadata_success_normalized:
  assumes "fst (get_variable_metadata api entry lookup c v st) = Inr m"
  shows "v = normalize v"
proof (rule ccontr)
  assume ne: "v \<noteq> normalize v"
  have conn: "is_connected c"
  proof (rule ccontr)
    assume "\<not> is_connected c"
    from get_metadata_not_connected [OF this, of api entry lookup "VList [v]" st]
    obtain e where "fst (get_metadata api entry lookup c (VList [v]) st) = Inl e" by blast
    from get_variable_metadata_propagates [OF this] show False using assms by simp
  qed
  have ok: "code_ok v"
  proof (rule ccontr)
    assume "\<not> code_ok v"
    from get_metadata_invalid [OF this, of api entry lookup c st]
    obtain e where "fst (get_metadata api entry lookup c (VList [v]) st) = Inl e" by blast
    from get_variable_metadata_propagates [OF this] show False using assms by simp
  qed
  from get_variable_metadata_not_normalized [OF conn ok ne, of api entry lookup st]
  obtain e where "fst (get_variable_metadata api entry lookup c v st) = Inl e" by blast
  then show False using assms by simp
qed

text \<open>
  C7.  On a connected client of either kind, take a valid variable code whose
  normalized form is absent from the source (no lookup of it returns a description).
  Then \<open>get_variable_metadata\<close> of it raises DataRetrievalError, while \<open>get_metadata\<close>
  of any list of valid codes containing it returns a mapping, without raising, in which
  the code has no entry.
\<close>

theorem metadata_absent_variable_asymmetry:
  assumes "is_connected c" "code_ok v" "absent_from_source lookup (normalize v)"
  shows "(\<exists>e. fst (fred_get_variable_metadata lookup c v st) = Inl e \<and> cls e = DataRetrievalError)
       \<and> (\<exists>e. fst (haver_get_variable_metadata lookup c v st) = Inl e \<and> cls e = DataRetrievalError)
       \<and> (\<forall>vars. v \<in> set vars \<and> (\<forall>w \<in> set vars. code_ok w) \<longrightarrow>
            (\<exists>md. fst (fred_get_metadata lookup c (VList vars) st) = Inr md
                \<and> normalize v \<notin> fst ` set md)
          \<and> (\<exists>md. fst (haver_get_metadata lookup c (VList vars) st) = Inr md
                \<and> normalize v \<notin> fst ` set md))"
proof (intro conjI allI impI)
  show "\<exists>e. fst (fred_get_variable_metadata lookup c v st) = Inl e \<and> cls e = DataRetrievalError"
    unfolding fred_get_variable_metadata_def by (rule get_variable_metadata_absent [OF assms])
  show "\<exists>e. fst (haver_get_variable_metadata lookup c v st) = Inl e \<and> cls e = DataRetrievalError"
    unfolding haver_get_variable_metadata_def by (rule get_variable_metadata_absent [OF assms])
next
  fix vars assume a: "v \<in> set vars \<and> (\<forall>w \<in> set vars. code_ok w)"
  then have ok: "\<forall>w \<in> set vars. code_ok w" by simp
  show "\<exists>md. fst (fred_get_metadata lookup c (VList vars) st) = Inr md
                \<and> normalize v \<notin> fst ` set md"
    unfolding fred_get_metadata_def by (rule get_metadata_omits_absent [OF assms(1) ok assms(3)])
  show "\<exists>md. fst (haver_get_metadata lookup c (VList vars) st) = Inr md
                \<and> normalize v \<notin> fst ` set md"
    unfolding haver_get_metadata_def by (rule get_metadata_omits_absent [OF assms(1) ok assms(3)])
qed

lemma example_normal_forms:
  "normalize ''NOSUCH'' = ''NOSUCH''" "normalize ''FEDFUNDS'' = ''FEDFUNDS''"
  "normalize ''fedfunds'' = ''FEDFUNDS''"
  by (simp_all add: normalize_def upper_def strip_def isspace_def upper_char_def
        lowercase_letters_def uppercase_letters_def)

theorem metadata_absent_variable_asymmetry_witness:
  "(\<exists>e. fst (fred_get_variable_metadata
             (\<lambda>st v. (if v = ''FEDFUNDS'' then Inr (Some [''title'' \<mapsto> ''Funds rate''])
                       else Inr None, st :: nat))
             \<lparr>api_key = Some ''k'', source_name = ''Unknown Source'', base_url = ''u'',
              rate_limit = 120, is_connected = True, session = True, timeout = 30,
              last_request_time = 0\<rparr> ''NOSUCH'' 0) = Inl e \<and> cls e = DataRetrievalError)
   \<and> (\<exists>md. fst (fred_get_metadata
             (\<lambda>st v. (if v = ''FEDFUNDS'' then Inr (Some [''title'' \<mapsto> ''Funds rate''])
                       else Inr None, st :: nat))
             \<lparr>api_key = Some ''k'', source_name = ''Unknown Source'', base_url = ''u'',
              rate_limit = 120, is_connected = True, session = True, timeout = 30,
              last_request_time = 0\<rparr> (VList [''FEDFUNDS'', ''NOSUCH'']) 0) = Inr md
          \<and> ''NOSUCH'' \<notin> fst ` set md)"
proof -
  let ?lk = "\<lambda>st v. (if v = ''FEDFUNDS'' then Inr (Some [''title'' \<mapsto> ''Funds rate''])
                       else Inr None, st :: nat)"
  let ?c = "\<lparr>api_key = Some ''k'', source_name = ''Unknown Source'', base_url = ''u'',
              rate_limit = 120, is_connected = True, session = True, timeout = 30,
              last_request_time = 0\<rparr>"
  have ok: "code_ok ''NOSUCH''" "code_ok ''FEDFUNDS''"
    by (simp_all add: code_ok_def example_normal_forms)
  have ab: "absent_from_source ?lk (normalize ''NOSUCH'')"
    by (simp add: absent_from_source_def example_normal_forms)
  have conn: "is_connected ?c" by simp
  note t = metadata_absent_variable_asymmetry [OF conn ok(1) ab, of 0]
  have a: "\<exists>e. fst (fred_get_variable_metadata ?lk ?c ''NOSUCH'' 0) = Inl e
             \<and> cls e = DataRetrievalError"
    using t by (rule conjunct1)
  have pre: "''NOSUCH'' \<in> set [''FEDFUNDS'', ''NOSUCH'']
          \<and> (\<forall>w \<in> set [''FEDFUNDS'', ''NOSUCH'']. code_ok w)" using ok by simp
  have all: "\<forall>vars. ''NOSUCH'' \<in> set vars \<and> (\<forall>w \<in> set vars. code_ok w) \<longrightarrow>
            (\<exists>md. fst (fred_get_metadata ?lk ?c (VList vars) 0) = Inr md
                \<and> normalize ''NOSUCH'' \<notin> fst ` set md)
          \<and> (\<exists>md. fst (haver_get_metadata ?lk ?c (VList vars) 0) = Inr md
                \<and> normalize ''NOSUCH'' \<notin> fst ` set md)"
    by (rule t [THEN conjunct2, THEN conjunct2])
  have "\<exists>md. fst (fred_get_metadata ?lk ?c (VList [''FEDFUNDS'', ''NOSUCH'']) 0) = Inr md
                \<and> normalize ''NOSUCH'' \<notin> fst ` set md"
    using all [rule_format, OF pre] by (rule conjunct1)
  then have b: "\<exists>md. fst (fred_get_metadata ?lk ?c (VList [''FEDFUNDS'', ''NOSUCH'']) 0) = Inr md
                \<and> ''NOSUCH'' \<notin> fst ` set md"
    unfolding example_normal_forms .
  show ?thesis using a b by (rule conjI)
qed

lemma get_variable_metadata_invalid_input:
  assumes "is_connected c" "\<not> code_ok v"
  shows "\<exists>e. fst (get_variable_metadata api entry lookup c v st) = Inl e
           \<and> cls e = ValidationError"
proof -
  have "\<not> (\<forall>w \<in> set [v]. code_ok w)" using assms(2) by simp
  from validate_list_bad [OF this]
  obtain e where e: "validate_variable_codes (VList [v]) = Inl e" "cls e = ValidationError"
    by blast
  have "fst (get_metadata api entry lookup c (VList [v]) st) = Inl e"
    unfolding get_metadata_def e using assms(1) by simp
  from get_variable_metadata_propagates [OF this] show ?thesis using e(2) by blast
qed

text \<open>
  C9 (as amended).  On a connected client, for an input that passes validation and
  differs from its uppercase-trimmed form, \<open>get_variable_metadata\<close> raises
  DataRetrievalError whatever the source returns: the mapping is keyed by the
  normalized code and searched with the input as given.  Whenever
  \<open>get_variable_metadata\<close> returns a record, the input was already in normalized
  form.  An input that fails validation (empty after trimming, or longer than 50
  characters) raises ValidationError on a connected client, before any lookup.
\<close>

theorem get_variable_metadata_needs_normalized_input:
  "(is_connected c \<and> code_ok v \<and> v \<noteq> normalize v \<longrightarrow>
      (\<exists>e. fst (fred_get_variable_metadata lookup c v st) = Inl e \<and> cls e = DataRetrievalError))
   \<and> (\<forall>m. fst (fred_get_variable_metadata lookup c v st) = Inr m \<longrightarrow> v = normalize v)
   \<and> (is_connected c \<and> \<not> code_ok v \<longrightarrow>
      (\<exists>e. fst (fred_get_variable_metadata lookup c v st) = Inl e \<and> cls e = ValidationError))"
proof (intro conjI allI impI)
  assume "is_connected c \<and> code_ok v \<and> v \<noteq> normalize v"
  then have a: "is_connected c" "code_ok v" "v \<noteq> normalize v" by simp_all
  show "\<exists>e. fst (fred_get_variable_metadata lookup c v st) = Inl e \<and> cls e = DataRetrievalError"
    unfolding fred_get_variable_metadata_def by (rule get_variable_metadata_not_normalized [OF a])
next
  fix m assume "fst (fred_get_variable_metadata lookup c v st) = Inr m"
  then show "v = normalize v"
    unfolding fred_get_variable_metadata_def by (rule get_variable_metadata_success_normalized)
next
  assume "is_connected c \<and> \<not> code_ok v"
  then have b: "is_connected c" "\<not> code_ok v" by simp_all
  show "\<exists>e. fst (fred_get_variable_metadata lookup c v st) = Inl e \<and> cls e = ValidationError"
    unfolding fred_get_variable_metadata_def by (rule get_variable_metadata_invalid_input [OF b])
qed

theorem get_variable_metadata_needs_normalized_input_witness:
  "\<exists>e. fst (fred_get_variable_metadata
             (\<lambda>st v. (if v = ''FEDFUNDS'' then Inr (Some [''title'' \<mapsto> ''Funds rate''])
                       else Inr None, st :: nat))
             \<lparr>api_key = Some ''k'', source_name = ''Unknown Source'', base_url = ''u'',
              rate_limit = 120, is_connected = True, session = True, timeout = 30,
              last_request_time = 0\<rparr> ''fedfunds'' 0) = Inl e \<and> cls e = DataRetrievalError"
proof -
  let ?lk = "\<lambda>st v. (if v = ''FEDFUNDS'' then Inr (Some [''title'' \<mapsto> ''Funds rate''])
                       else Inr None, st :: nat)"
  let ?c = "\<lparr>api_key = Some ''k'', source_name = ''Unknown Source'', base_url = ''u'',
              rate_limit = 120, is_connected = True, session = True, timeout = 30,
              last_request_time = 0\<rparr>"
  have pre: "is_connected ?c \<and> code_ok ''fedfunds'' \<and> ''fedfunds'' \<noteq> normalize ''fedfunds''"
    by (simp add: code_ok_def example_normal_forms)
  note t = get_variable_metadata_needs_normalized_input
             [where c = ?c and v = "''fedfunds''" and lookup = ?lk and st = 0]
  show ?thesis using t [THEN conjunct1, rule_format, OF pre] .
qed


text \<open>
  C9 as stated fails for an input that validation refuses.  The input of two blanks
  differs from its normalized form, the empty string, and on a connected client whose
  source answers every lookup, \<open>get_variable_metadata\<close> raises ValidationError, not
  DataRetrievalError.
\<close>

theorem get_variable_metadata_blank_input_counterexample:
  "''  '' \<noteq> normalize ''  ''
   \<and> (\<exists>e. fst (fred_get_variable_metadata
             (\<lambda>st v. (Inr (Some [''title'' \<mapsto> ''Funds rate'']), st :: nat))
             \<lparr>api_key = Some ''k'', source_name = ''Unknown Source'', base_url = ''u'',
              rate_limit = 120, is_connected = True, session = True, timeout = 30,
              last_request_time = 0\<rparr> ''  '' 0) = Inl e
          \<and> cls e = ValidationError \<and> cls e \<noteq> DataRetrievalError)"
proof -
  have n: "normalize ''  '' = []"
    by (simp add: normalize_def upper_def strip_def isspace_def)
  have bad: "\<not> code_ok ''  ''" by (simp add: code_ok_def n)
  have conn: "is_connected \<lparr>api_key = Some ''k'', source_name = ''Unknown Source'', base_url = ''u'',
              rate_limit = 120, is_connected = True, session = True, timeout = 30,
              last_request_time = 0\<rparr>" by simp
  from get_variable_metadata_invalid_input [OF conn bad,
         where api = "''FRED''" and entry = fred_metadata_entry and st = 0
           and lookup = "\<lambda>st v. (Inr (Some [''title'' \<mapsto> ''Funds rate'']), st :: nat)"]
  obtain e where "fst (fred_get_variable_metadata
             (\<lambda>st v. (Inr (Some [''title'' \<mapsto> ''Funds rate'']), st :: nat))
             \<lparr>api_key = Some ''k'', source_name = ''Unknown Source'', base_url = ''u'',
              rate_limit = 120, is_connected = True, session = True, timeout = 30,
              last_request_time = 0\<rparr> ''  '' 0) = Inl e" "cls e = ValidationError"
    unfolding fred_get_variable_metadata_def by blast
  then show ?thesis using n by auto
qed


section \<open>Properties of scoped acquisition\<close>

text \<open>
  C8.  When \<open>__enter__\<close> has succeeded, the \<open>with\<close> statement leaves the client as
  \<open>disconnect\<close> leaves the state the body ended in, on both exit paths: the
  \<open>is_connected\<close> flag is false afterwards, an exception raised by the body is raised
  by the statement, and a value returned by the body is returned.
\<close>

theorem with_statement_always_disconnects:
  assumes "fst (connect c) = Inr b"
  shows "\<not> is_connected (snd (with_statement connect body c))
       \<and> snd (with_statement connect body c) = disconnect (snd (body (snd (connect c))))
       \<and> (\<forall>e. fst (body (snd (connect c))) = Inl e \<longrightarrow>
             fst (with_statement connect body c) = Inl e)
       \<and> (\<forall>x. fst (body (snd (connect c))) = Inr x \<longrightarrow>
             fst (with_statement connect body c) = Inr (Some x))"
proof -
  obtain c1 where c1: "connect c = (Inr b, c1)" using assms by (cases "connect c") auto
  obtain r c2 where b: "body c1 = (r, c2)" by (cases "body c1")
  show ?thesis
    using c1 b
    by (cases r) (simp_all add: with_statement_def enter_def exit_scope_def disconnect_def)
qed

theorem with_statement_always_disconnects_witness:
  "\<not> is_connected (snd (with_statement
        (\<lambda>c. (Inr True, c\<lparr>session := True, is_connected := True\<rparr>))
        (\<lambda>c. (Inl (builtin_exn ''RuntimeError'' ''boom'') :: exn + unit, c))
        \<lparr>api_key = Some ''k'', source_name = ''Unknown Source'', base_url = ''u'',
         rate_limit = 120, is_connected = False, session = False, timeout = 30,
         last_request_time = 0\<rparr>))
   \<and> fst (with_statement
        (\<lambda>c. (Inr True, c\<lparr>session := True, is_connected := True\<rparr>))
        (\<lambda>c. (Inl (builtin_exn ''RuntimeError'' ''boom'') :: exn + unit, c))
        \<lparr>api_key = Some ''k'', source_name = ''Unknown Source'', base_url = ''u'',
         rate_limit = 120, is_connected = False, session = False, timeout = 30,
         last_request_time = 0\<rparr>) = Inl (builtin_exn ''RuntimeError'' ''boom'')"
  using with_statement_always_disconnects
          [where connect = "\<lambda>c. (Inr True, c\<lparr>session := True, is_connected := True\<rparr>)"
             and body = "\<lambda>c. (Inl (builtin_exn ''RuntimeError'' ''boom'') :: exn + unit, c)"
             and b = True
             and c = "\<lparr>api_key = Some ''k'', source_name = ''Unknown Source'', base_url = ''u'',
                       rate_limit = 120, is_connected = False, session = False, timeout = 30,
                       last_request_time = 0\<rparr>"]
  by (simp add: disconnect_def)

section \<open>Properties of the factory\<close>













end
